theory Spec2Isabelle
  imports Main "HOL-Library.Word" "HOL-Library.Monad_Syntax" "HOL-Library.Sublist"
begin

section \<open>SKiM980A board support: power-mode and clock sequencing (board.c)\<close>

text \<open>
  The functions of \<^verbatim>\<open>src/boards/SKiM980A/board.c\<close> are embedded as state transformers
  over a record of the file's static variables and the processor's interrupt mask. Every
  call into a peripheral driver, the vendor HAL or a register macro is recorded, in
  program order, in a trace of events; a function that may spin for ever returns an
  option, \<open>None\<close> meaning that it never returns.
\<close>

subsection \<open>Enumerations of the board headers\<close>

datatype Gpio_t = Led1 | Led2 | Led3 | Led4 | ioPin

datatype PinNames =
    LED_1 | LED_2 | LED_3 | LED_4
  | USB_DM | USB_DP
  | JTAG_TMS | JTAG_TCK | JTAG_TDI | JTAG_TDO | JTAG_NRST
  | OSC_HSE_IN | OSC_HSE_OUT | OSC_LSE_IN | OSC_LSE_OUT
  | POTI | RADIO_MOSI | RADIO_MISO | RADIO_SCLK | NC

datatype PinModes = PIN_INPUT | PIN_OUTPUT | PIN_ALTERNATE_FCT | PIN_ANALOGIC

datatype PinConfigs = PIN_PUSH_PULL | PIN_OPEN_DRAIN

datatype PinTypes = PIN_NO_PULL | PIN_PULL_UP | PIN_PULL_DOWN

datatype BoardPowerSources = USB_POWER | BATTERY_POWER

datatype HAL_StatusTypeDef = HAL_OK | HAL_ERROR | HAL_BUSY | HAL_TIMEOUT

datatype Fifo_t = Uart1_FifoTx | Uart1_FifoRx

text \<open>The hardware flags that the clock sequences poll.\<close>

datatype hw_flag = PWR_FLAG_VOS | RCC_FLAG_HSERDY | RCC_FLAG_PLLRDY

text \<open>The system clock switch status (the SWS field of RCC CFGR).\<close>

datatype sysclk_source =
    RCC_SYSCLKSOURCE_STATUS_MSI
  | RCC_SYSCLKSOURCE_STATUS_HSI
  | RCC_SYSCLKSOURCE_STATUS_HSE
  | RCC_SYSCLKSOURCE_STATUS_PLLCLK

subsection \<open>Events: calls that leave board.c\<close>

text \<open>Calls into the board's peripheral drivers, with the arguments that board.c passes.\<close>

datatype driver_call =
    GpioInit Gpio_t PinNames PinModes PinConfigs PinTypes nat
  | GpioWrite Gpio_t nat
  | FifoInit Fifo_t nat
  | UartInit
  | UartConfig nat
  | RtcInit
  | LpmSetOffMode_LPM_APPLI_ID_LPM_DISABLE
  | AdcInit PinNames
  | AdcDeInit
  | SpiInit PinNames PinNames PinNames PinNames
  | SpiDeInit
  | EncoderInit
  | WdtInit

datatype radio_call = SX1272IoInit | SX1272IoDeInit | SX1272IoDbgInit | SX1272IoTcxoInit

datatype timer_call = TimerInit | TimerSetValue nat | TimerStart | RtcSetMcuWakeUpTime

datatype dbgmcu_call =
    EnableDBGSleepMode | EnableDBGStopMode | EnableDBGStandbyMode
  | FREEZE_WWDG | FREEZE_IWDG
  | DisableDBGSleepMode | DisableDBGStopMode | DisableDBGStandbyMode
  | UNFREEZE_WWDG | UNFREEZE_IWDG

text \<open>Calls into the vendor HAL.\<close>

datatype hal_call =
    HAL_Init
  | HAL_DBGMCU dbgmcu_call
  | HAL_PWR_DisablePVD
  | HAL_PWREx_EnableUltraLowPower
  | HAL_PWREx_EnableFastWakeUp
  | HAL_PWR_EnterSTOPMode_LOWPOWERREGULATOR_ON_WFI
  | HAL_PWR_EnterSLEEPMode_MAINREGULATOR_ON_WFI
  | HAL_RCC_OscConfig_called
  | HAL_RCC_ClockConfig_called
  | HAL_RCCEx_PeriphCLKConfig_called
  | HAL_SYSTICK_Config "32 word"
  | HAL_SYSTICK_CLKSourceConfig_HCLK
  | HAL_NVIC_SetPriority_SysTick

text \<open>Register-level macros and processor instructions.\<close>

datatype reg_op =
    Cpsid_i
  | Msr_primask "32 word"
  | SET_BIT_PWR_CR_CWUF
  | RCC_PWR_CLK_ENABLE
  | PWR_VOLTAGESCALING_CONFIG_SCALE1
  | RCC_HSE_CONFIG_ON
  | RCC_LSE_CONFIG_ON
  | RCC_PLL_CONFIG_HSE_MUL6_DIV3
  | RCC_PLL_ENABLE
  | RCC_SYSCLK_CONFIG_PLLCLK
  | RCC_BUS_DIVIDERS_DIV1
  | RCC_RTC_CONFIG_LSE

datatype event =
    Driver driver_call
  | Radio radio_call
  | Timer timer_call
  | Hal hal_call
  | Reg reg_op
  | Read_flag hw_flag bool
  | Read_SYSCLK_SOURCE sysclk_source
  | Printf_wrong_parameters_value

subsection \<open>Build configuration, environment and state\<close>

text \<open>
  The preprocessor symbols that board.c tests. \<open>USE_POTENTIOMETER\<close> and \<open>USE_ENCODER\<close>
  are compared with a number in \<^verbatim>\<open>#if\<close> (an undefined symbol counts as 0);
  \<open>USE_DEBUGGER\<close> and \<open>USE_FULL_ASSERT\<close> are tested for being defined.
\<close>

record build =
  USE_POTENTIOMETER :: int
  USE_ENCODER :: int
  USE_DEBUGGER :: bool
  USE_FULL_ASSERT :: bool

text \<open>
  The hardware as the code sees it. A reading is indexed by the number of observations
  made before it: \<open>hw_flag_at env f t\<close> is the value of flag \<open>f\<close> at observation \<open>t\<close>
  (\<open>True\<close> is SET), \<open>sysclk_source_at env t\<close> the clock switch status, and
  \<open>timer_irq_at env t\<close> tells whether the calibration timer's interrupt is raised then.
  The three status fields are what the HAL configuration calls report, and \<open>HCLKFreq\<close>
  is the value of \<^verbatim>\<open>HAL_RCC_GetHCLKFreq\<close>.
\<close>

record env =
  hw_flag_at :: "hw_flag \<Rightarrow> nat \<Rightarrow> bool"
  sysclk_source_at :: "nat \<Rightarrow> sysclk_source"
  timer_irq_at :: "nat \<Rightarrow> bool"
  OscConfig_status :: HAL_StatusTypeDef
  ClockConfig_status :: HAL_StatusTypeDef
  PeriphCLKConfig_status :: HAL_StatusTypeDef
  HCLKFreq :: "32 word"

text \<open>
  \<open>McuInitialized\<close> and \<open>SystemWakeupTimeCalibrated\<close> are the two static flags of the
  file. \<open>PRIMASK\<close> is the one implemented bit of the Cortex-M PRIMASK register: when it
  is set, interrupts are masked. \<open>tick\<close> counts the hardware observations made so far.
  \<open>trace\<close> lists the events in the order in which they were executed.
\<close>

record mcu =
  McuInitialized :: bool
  SystemWakeupTimeCalibrated :: bool
  PRIMASK :: bool
  tick :: nat
  trace :: "event list"

definition emits :: "event list \<Rightarrow> mcu \<Rightarrow> mcu" where
  "emits es st = st\<lparr>trace := trace st @ es\<rparr>"

text \<open>The events that a step from \<open>st\<close> to \<open>st'\<close> added to the trace.\<close>

definition new_events :: "mcu \<Rightarrow> mcu \<Rightarrow> event list" where
  "new_events st st' = drop (length (trace st)) (trace st')"

subsection \<open>Spin-waits\<close>

text \<open>
  \<^verbatim>\<open>while( busy( read( ) ) );\<close> Every pass reads the hardware once and records the
  reading. There is no timeout: if the reading stays busy for ever, the loop has no
  result.
\<close>

partial_function (option) spin_while ::
  "(nat \<Rightarrow> 'a) \<Rightarrow> ('a \<Rightarrow> event) \<Rightarrow> ('a \<Rightarrow> bool) \<Rightarrow> mcu \<Rightarrow> mcu option" where
  "spin_while rd ev busy st =
     (if busy (rd (tick st))
      then spin_while rd ev busy (st\<lparr>tick := Suc (tick st), trace := trace st @ [ev (rd (tick st))]\<rparr>)
      else Some (st\<lparr>tick := Suc (tick st), trace := trace st @ [ev (rd (tick st))]\<rparr>))"

text \<open>\<^verbatim>\<open>while( 1 ) { }\<close>\<close>

partial_function (option) infinite_loop :: "mcu \<Rightarrow> mcu option" where
  "infinite_loop st = infinite_loop st"

subsection \<open>Critical section\<close>

text \<open>
  The CMSIS intrinsics: \<^verbatim>\<open>__get_PRIMASK\<close> reads the register (bit 0 is the mask, the
  other bits read as zero), \<^verbatim>\<open>__disable_irq\<close> sets the mask, \<^verbatim>\<open>__set_PRIMASK\<close>
  writes bit 0 of its argument to the mask.
\<close>

definition get_PRIMASK :: "mcu \<Rightarrow> 32 word" where
  "get_PRIMASK st = (if PRIMASK st then 1 else 0)"

definition disable_irq :: "mcu \<Rightarrow> mcu" where
  "disable_irq st = emits [Reg Cpsid_i] (st\<lparr>PRIMASK := True\<rparr>)"

definition set_PRIMASK :: "32 word \<Rightarrow> mcu \<Rightarrow> mcu" where
  "set_PRIMASK priMask st = emits [Reg (Msr_primask priMask)] (st\<lparr>PRIMASK := bit priMask 0\<rparr>)"

text \<open>
  \<^verbatim>\<open>void BoardCriticalSectionBegin( uint32_t *mask )\<close>: the value stored through the
  pointer is returned together with the new state.
\<close>

definition BoardCriticalSectionBegin :: "mcu \<Rightarrow> 32 word \<times> mcu" where
  "BoardCriticalSectionBegin st = (get_PRIMASK st, disable_irq st)"

definition BoardCriticalSectionEnd :: "32 word \<Rightarrow> mcu \<Rightarrow> mcu" where
  "BoardCriticalSectionEnd msk st = set_PRIMASK msk st"

subsection \<open>Assertions\<close>

text \<open>
  \<^verbatim>\<open>assert_failed\<close> is compiled only under \<^verbatim>\<open>USE_FULL_ASSERT\<close>: it prints and then
  loops for ever.
\<close>

definition assert_failed :: "mcu \<Rightarrow> mcu option" where
  "assert_failed st = infinite_loop (emits [Printf_wrong_parameters_value] st)"

text \<open>
  The macro \<^verbatim>\<open>assert_param\<close> comes from the HAL configuration header, outside
  board.c. Under \<^verbatim>\<open>USE_FULL_ASSERT\<close> it calls \<^verbatim>\<open>assert_failed\<close> when
  its argument is zero; without that symbol \<^verbatim>\<open>assert_failed\<close> does not exist and the
  macro expands to no statement. \<^verbatim>\<open>FAIL\<close> is 0.
\<close>

definition FAIL :: bool where
  "FAIL = False"

definition assert_param :: "build \<Rightarrow> bool \<Rightarrow> mcu \<Rightarrow> mcu option" where
  "assert_param cfg expr st =
     (if USE_FULL_ASSERT cfg then (if expr then Some st else assert_failed st) else Some st)"

subsection \<open>Power source\<close>

definition GetBoardPowerSource :: BoardPowerSources where
  "GetBoardPowerSource = BATTERY_POWER"

subsection \<open>Clock controller\<close>

text \<open>
  Modelled from the spec: \<^verbatim>\<open>HAL_RCC_OscConfig\<close> belongs to the vendor HAL, whose source
  is outside board.c. Steps (2) and (3) of the cold sequence: the external main
  and low-speed oscillators are enabled, the oscillator-ready flag is awaited, the PLL is
  configured from the main oscillator with the fixed ratio and enabled, and its lock flag
  is awaited; the waits are unbounded. The call reports a status to its caller.
\<close>

definition HAL_RCC_OscConfig :: "env \<Rightarrow> mcu \<Rightarrow> (HAL_StatusTypeDef \<times> mcu) option" where
  "HAL_RCC_OscConfig env st = do {
     st \<leftarrow> Some (emits [Hal HAL_RCC_OscConfig_called, Reg RCC_HSE_CONFIG_ON, Reg RCC_LSE_CONFIG_ON] st);
     st \<leftarrow> spin_while (hw_flag_at env RCC_FLAG_HSERDY) (Read_flag RCC_FLAG_HSERDY) (\<lambda>v. v = False) st;
     st \<leftarrow> Some (emits [Reg RCC_PLL_CONFIG_HSE_MUL6_DIV3, Reg RCC_PLL_ENABLE] st);
     st \<leftarrow> spin_while (hw_flag_at env RCC_FLAG_PLLRDY) (Read_flag RCC_FLAG_PLLRDY) (\<lambda>v. v = False) st;
     Some (OscConfig_status env, st)
   }"

text \<open>
  Modelled from the spec: \<^verbatim>\<open>HAL_RCC_ClockConfig\<close> belongs to the vendor HAL. Step (4)
  of the cold sequence: the PLL is selected as the system clock source and fanned out to
  the core and the peripheral buses at fixed dividers. The call reports a status.
\<close>

definition HAL_RCC_ClockConfig :: "env \<Rightarrow> mcu \<Rightarrow> (HAL_StatusTypeDef \<times> mcu) option" where
  "HAL_RCC_ClockConfig env st =
     Some (ClockConfig_status env,
           emits [Hal HAL_RCC_ClockConfig_called, Reg RCC_SYSCLK_CONFIG_PLLCLK, Reg RCC_BUS_DIVIDERS_DIV1] st)"

text \<open>
  Modelled from the spec: \<^verbatim>\<open>HAL_RCCEx_PeriphCLKConfig\<close> belongs to the vendor HAL.
  Step (5) of the cold sequence: the external low-speed oscillator is routed to the
  real-time-clock peripheral clock. The call reports a status.
\<close>

definition HAL_RCCEx_PeriphCLKConfig :: "env \<Rightarrow> mcu \<Rightarrow> (HAL_StatusTypeDef \<times> mcu) option" where
  "HAL_RCCEx_PeriphCLKConfig env st =
     Some (PeriphCLKConfig_status env, emits [Hal HAL_RCCEx_PeriphCLKConfig_called, Reg RCC_RTC_CONFIG_LSE] st)"

definition SystemClockConfig :: "build \<Rightarrow> env \<Rightarrow> mcu \<Rightarrow> mcu option" where
  "SystemClockConfig cfg env st = do {
     st \<leftarrow> Some (emits [Reg RCC_PWR_CLK_ENABLE, Reg PWR_VOLTAGESCALING_CONFIG_SCALE1] st);
     (r, st) \<leftarrow> HAL_RCC_OscConfig env st;
     st \<leftarrow> (if r \<noteq> HAL_OK then assert_param cfg FAIL st else Some st);
     (r, st) \<leftarrow> HAL_RCC_ClockConfig env st;
     st \<leftarrow> (if r \<noteq> HAL_OK then assert_param cfg FAIL st else Some st);
     (r, st) \<leftarrow> HAL_RCCEx_PeriphCLKConfig env st;
     st \<leftarrow> (if r \<noteq> HAL_OK then assert_param cfg FAIL st else Some st);
     Some (emits [Hal (HAL_SYSTICK_Config (HCLKFreq env div 1000)),
                  Hal HAL_SYSTICK_CLKSourceConfig_HCLK,
                  Hal HAL_NVIC_SetPriority_SysTick] st)
   }"

definition SystemClockReConfig :: "env \<Rightarrow> mcu \<Rightarrow> mcu option" where
  "SystemClockReConfig env st = do {
     st \<leftarrow> Some (emits [Reg RCC_PWR_CLK_ENABLE, Reg PWR_VOLTAGESCALING_CONFIG_SCALE1] st);
     st \<leftarrow> spin_while (hw_flag_at env PWR_FLAG_VOS) (Read_flag PWR_FLAG_VOS) (\<lambda>v. v \<noteq> False) st;
     st \<leftarrow> Some (emits [Reg RCC_HSE_CONFIG_ON] st);
     st \<leftarrow> spin_while (hw_flag_at env RCC_FLAG_HSERDY) (Read_flag RCC_FLAG_HSERDY) (\<lambda>v. v = False) st;
     st \<leftarrow> Some (emits [Reg RCC_PLL_CONFIG_HSE_MUL6_DIV3, Reg RCC_PLL_ENABLE] st);
     st \<leftarrow> spin_while (hw_flag_at env RCC_FLAG_PLLRDY) (Read_flag RCC_FLAG_PLLRDY) (\<lambda>v. v = False) st;
     st \<leftarrow> Some (emits [Reg RCC_SYSCLK_CONFIG_PLLCLK] st);
     spin_while (sysclk_source_at env) Read_SYSCLK_SOURCE
       (\<lambda>v. v \<noteq> RCC_SYSCLKSOURCE_STATUS_PLLCLK) st
   }"

subsection \<open>Wake-up time calibration\<close>

definition OnCalibrateSystemWakeupTimeTimerEvent :: "mcu \<Rightarrow> mcu" where
  "OnCalibrateSystemWakeupTimeTimerEvent st =
     (emits [Timer RtcSetMcuWakeUpTime] st)\<lparr>SystemWakeupTimeCalibrated := True\<rparr>"

text \<open>
  Between two reads of the volatile flag the timer's interrupt may be taken: the handler
  runs when the interrupt is raised and interrupts are not masked.
\<close>

definition interrupt_window :: "env \<Rightarrow> mcu \<Rightarrow> mcu" where
  "interrupt_window env st =
     (if timer_irq_at env (tick st) \<and> \<not> PRIMASK st
      then OnCalibrateSystemWakeupTimeTimerEvent (st\<lparr>tick := Suc (tick st)\<rparr>)
      else st\<lparr>tick := Suc (tick st)\<rparr>)"

text \<open>\<^verbatim>\<open>while( SystemWakeupTimeCalibrated == false ) { }\<close>\<close>

partial_function (option) wait_calibrated :: "env \<Rightarrow> mcu \<Rightarrow> mcu option" where
  "wait_calibrated env st =
     (if SystemWakeupTimeCalibrated st = False
      then wait_calibrated env (interrupt_window env st)
      else Some st)"

definition CalibrateSystemWakeupTime :: "env \<Rightarrow> mcu \<Rightarrow> mcu option" where
  "CalibrateSystemWakeupTime env st =
     (if SystemWakeupTimeCalibrated st = False
      then wait_calibrated env
             (emits [Timer TimerInit, Timer (TimerSetValue 1000), Timer TimerStart] st)
      else Some st)"

subsection \<open>Board initialisation and de-initialisation\<close>

definition BoardUnusedIoInit :: "build \<Rightarrow> mcu \<Rightarrow> mcu" where
  "BoardUnusedIoInit cfg st =
     (let st1 = (if GetBoardPowerSource = BATTERY_POWER
                 then emits [Driver (GpioInit ioPin USB_DM PIN_ANALOGIC PIN_PUSH_PULL PIN_NO_PULL 0),
                             Driver (GpioInit ioPin USB_DP PIN_ANALOGIC PIN_PUSH_PULL PIN_NO_PULL 0)] st
                 else st)
      in if USE_DEBUGGER cfg
         then emits [Hal (HAL_DBGMCU EnableDBGSleepMode),
                     Hal (HAL_DBGMCU EnableDBGStopMode),
                     Hal (HAL_DBGMCU EnableDBGStandbyMode),
                     Hal (HAL_DBGMCU FREEZE_WWDG),
                     Hal (HAL_DBGMCU FREEZE_IWDG)] st1
         else emits [Hal (HAL_DBGMCU DisableDBGSleepMode),
                     Hal (HAL_DBGMCU DisableDBGStopMode),
                     Hal (HAL_DBGMCU DisableDBGStandbyMode),
                     Hal (HAL_DBGMCU UNFREEZE_WWDG),
                     Hal (HAL_DBGMCU UNFREEZE_IWDG),
                     Driver (GpioInit ioPin JTAG_TMS PIN_ANALOGIC PIN_PUSH_PULL PIN_NO_PULL 0),
                     Driver (GpioInit ioPin JTAG_TCK PIN_ANALOGIC PIN_PUSH_PULL PIN_NO_PULL 0),
                     Driver (GpioInit ioPin JTAG_TDI PIN_ANALOGIC PIN_PUSH_PULL PIN_NO_PULL 0),
                     Driver (GpioInit ioPin JTAG_TDO PIN_ANALOGIC PIN_PUSH_PULL PIN_NO_PULL 0),
                     Driver (GpioInit ioPin JTAG_NRST PIN_ANALOGIC PIN_PUSH_PULL PIN_NO_PULL 0)] st1)"

text \<open>The branch of \<^verbatim>\<open>BoardInitMcu\<close> taken when \<open>McuInitialized\<close> is false.\<close>

definition BoardInitMcu_cold :: "build \<Rightarrow> env \<Rightarrow> mcu \<Rightarrow> mcu option" where
  "BoardInitMcu_cold cfg env st = do {
     st \<leftarrow> Some (emits [Hal HAL_Init] st);
     st \<leftarrow> Some (if USE_POTENTIOMETER cfg = 0
                  then emits [Driver (GpioInit Led1 LED_1 PIN_OUTPUT PIN_PUSH_PULL PIN_NO_PULL 1)] st
                  else st);
     st \<leftarrow> SystemClockConfig cfg env st;
     st \<leftarrow> Some (emits [Driver (FifoInit Uart1_FifoTx 1024),
                         Driver (FifoInit Uart1_FifoRx 1024),
                         Driver UartInit,
                         Driver (UartConfig 115200),
                         Driver RtcInit] st);
     st \<leftarrow> Some (if USE_POTENTIOMETER cfg = 0 then emits [Driver (GpioWrite Led1 0)] st else st);
     st \<leftarrow> Some (emits [Driver (GpioInit Led1 LED_1 PIN_OUTPUT PIN_PUSH_PULL PIN_NO_PULL 1),
                         Driver (GpioInit Led2 LED_2 PIN_OUTPUT PIN_PUSH_PULL PIN_NO_PULL 1),
                         Driver (GpioInit Led3 LED_3 PIN_OUTPUT PIN_PUSH_PULL PIN_NO_PULL 1),
                         Driver (GpioInit Led4 LED_4 PIN_OUTPUT PIN_PUSH_PULL PIN_NO_PULL 1)] st);
     st \<leftarrow> Some (BoardUnusedIoInit cfg st);
     Some (if GetBoardPowerSource = BATTERY_POWER
           then emits [Driver LpmSetOffMode_LPM_APPLI_ID_LPM_DISABLE] st
           else st)
   }"

definition BoardInitMcu :: "build \<Rightarrow> env \<Rightarrow> mcu \<Rightarrow> mcu option" where
  "BoardInitMcu cfg env st = do {
     st \<leftarrow> (if McuInitialized st = False
             then BoardInitMcu_cold cfg env st
             else SystemClockReConfig env st);
     st \<leftarrow> Some (emits [Driver (AdcInit POTI),
                         Driver (SpiInit RADIO_MOSI RADIO_MISO RADIO_SCLK NC),
                         Radio SX1272IoInit] st);
     st \<leftarrow> Some (if USE_ENCODER cfg = 1
                  then emits [Driver EncoderInit,
                              Driver (GpioWrite Led2 0),
                              Driver (GpioWrite Led3 0),
                              Driver (GpioWrite Led4 0)] st
                  else st);
     st \<leftarrow> (if McuInitialized st = False
             then do {
               st \<leftarrow> Some (st\<lparr>McuInitialized := True\<rparr>);
               st \<leftarrow> Some (emits [Radio SX1272IoDbgInit, Radio SX1272IoTcxoInit] st);
               (if GetBoardPowerSource = BATTERY_POWER
                then CalibrateSystemWakeupTime env st
                else Some st)
             }
             else Some st);
     Some (emits [Driver WdtInit] st)
   }"

definition BoardDeInitMcu :: "mcu \<Rightarrow> mcu" where
  "BoardDeInitMcu st =
     emits [Driver AdcDeInit,
            Driver SpiDeInit,
            Radio SX1272IoDeInit,
            Driver (GpioInit ioPin OSC_HSE_IN PIN_ANALOGIC PIN_PUSH_PULL PIN_NO_PULL 1),
            Driver (GpioInit ioPin OSC_HSE_OUT PIN_ANALOGIC PIN_PUSH_PULL PIN_NO_PULL 1),
            Driver (GpioInit ioPin OSC_LSE_IN PIN_INPUT PIN_PUSH_PULL PIN_PULL_DOWN 1),
            Driver (GpioInit ioPin OSC_LSE_OUT PIN_INPUT PIN_PUSH_PULL PIN_PULL_DOWN 1)] st"

subsection \<open>Low-power modes\<close>

text \<open>
  \<^verbatim>\<open>CRITICAL_SECTION_BEGIN( )\<close> declares a local \<^verbatim>\<open>uint32_t mask\<close> and calls
  \<^verbatim>\<open>BoardCriticalSectionBegin( &mask )\<close>; \<^verbatim>\<open>CRITICAL_SECTION_END( )\<close> calls
  \<^verbatim>\<open>BoardCriticalSectionEnd( &mask )\<close>. \<^verbatim>\<open>HAL_PWR_EnterSTOPMode\<close> halts the processor
  and returns at the next wake-up event; only the call is recorded.
\<close>

definition LpmEnterStopMode :: "mcu \<Rightarrow> mcu" where
  "LpmEnterStopMode st =
     (let (msk, st) = BoardCriticalSectionBegin st;
          st = BoardDeInitMcu st;
          st = emits [Hal HAL_PWR_DisablePVD] st;
          st = emits [Reg SET_BIT_PWR_CR_CWUF] st;
          st = emits [Hal HAL_PWREx_EnableUltraLowPower] st;
          st = emits [Hal HAL_PWREx_EnableFastWakeUp] st;
          st = BoardCriticalSectionEnd msk st
      in emits [Hal HAL_PWR_EnterSTOPMode_LOWPOWERREGULATOR_ON_WFI] st)"

definition LpmExitStopMode :: "build \<Rightarrow> env \<Rightarrow> mcu \<Rightarrow> mcu option" where
  "LpmExitStopMode cfg env st =
     (let (msk, st) = BoardCriticalSectionBegin st
      in do {
        st \<leftarrow> BoardInitMcu cfg env st;
        Some (BoardCriticalSectionEnd msk st)
      })"

definition LpmEnterSleepMode :: "mcu \<Rightarrow> mcu" where
  "LpmEnterSleepMode st = emits [Hal HAL_PWR_EnterSLEEPMode_MAINREGULATOR_ON_WFI] st"

section \<open>Vocabulary of the properties\<close>

subsection \<open>Sequences of calls\<close>

text \<open>The states reached after each of \<open>n\<close> consecutive calls of \<open>f\<close>.\<close>

fun consecutive_calls :: "(mcu \<Rightarrow> mcu option) \<Rightarrow> nat \<Rightarrow> mcu \<Rightarrow> mcu list option" where
  "consecutive_calls f 0 st = Some []"
| "consecutive_calls f (Suc n) st = do {
     st1 \<leftarrow> f st;
     sts \<leftarrow> consecutive_calls f n st1;
     Some (st1 # sts)
   }"

text \<open>The entry points of the power-mode sequencer, and a run of calls to them.\<close>

datatype board_op =
    Call_BoardInitMcu
  | Call_BoardDeInitMcu
  | Call_LpmEnterStopMode
  | Call_LpmExitStopMode
  | Call_LpmEnterSleepMode

fun exec_op :: "build \<Rightarrow> env \<Rightarrow> board_op \<Rightarrow> mcu \<Rightarrow> mcu option" where
  "exec_op cfg env Call_BoardInitMcu st = BoardInitMcu cfg env st"
| "exec_op cfg env Call_BoardDeInitMcu st = Some (BoardDeInitMcu st)"
| "exec_op cfg env Call_LpmEnterStopMode st = Some (LpmEnterStopMode st)"
| "exec_op cfg env Call_LpmExitStopMode st = LpmExitStopMode cfg env st"
| "exec_op cfg env Call_LpmEnterSleepMode st = Some (LpmEnterSleepMode st)"

fun exec_ops :: "build \<Rightarrow> env \<Rightarrow> board_op list \<Rightarrow> mcu \<Rightarrow> mcu option" where
  "exec_ops cfg env [] st = Some st"
| "exec_ops cfg env (c # cs) st = do {
     st1 \<leftarrow> exec_op cfg env c st;
     exec_ops cfg env cs st1
   }"

text \<open>The calls that run \<open>BoardInitMcu\<close>: the function itself and \<open>LpmExitStopMode\<close>.\<close>

fun runs_BoardInitMcu :: "board_op \<Rightarrow> bool" where
  "runs_BoardInitMcu Call_BoardInitMcu = True"
| "runs_BoardInitMcu Call_LpmExitStopMode = True"
| "runs_BoardInitMcu c = False"

subsection \<open>Cold boot and resume\<close>

text \<open>
  One event for each part of the cold-boot sequence: HAL initialisation, cold clock
  configuration, console buffers and UART, real-time clock, LEDs, unused pins, and the
  arming and completion of the wake-up time calibration.
\<close>

definition cold_boot_marks :: "event list" where
  "cold_boot_marks =
     [Hal HAL_Init,
      Hal HAL_RCC_OscConfig_called,
      Hal HAL_RCC_ClockConfig_called,
      Hal HAL_RCCEx_PeriphCLKConfig_called,
      Driver (FifoInit Uart1_FifoTx 1024),
      Driver (FifoInit Uart1_FifoRx 1024),
      Driver UartInit,
      Driver (UartConfig 115200),
      Driver RtcInit,
      Driver (GpioInit Led2 LED_2 PIN_OUTPUT PIN_PUSH_PULL PIN_NO_PULL 1),
      Driver (GpioInit Led3 LED_3 PIN_OUTPUT PIN_PUSH_PULL PIN_NO_PULL 1),
      Driver (GpioInit Led4 LED_4 PIN_OUTPUT PIN_PUSH_PULL PIN_NO_PULL 1),
      Driver (GpioInit ioPin USB_DM PIN_ANALOGIC PIN_PUSH_PULL PIN_NO_PULL 0),
      Driver (GpioInit ioPin USB_DP PIN_ANALOGIC PIN_PUSH_PULL PIN_NO_PULL 0),
      Driver LpmSetOffMode_LPM_APPLI_ID_LPM_DISABLE,
      Radio SX1272IoDbgInit,
      Radio SX1272IoTcxoInit,
      Timer TimerInit,
      Timer (TimerSetValue 1000),
      Timer TimerStart,
      Timer RtcSetMcuWakeUpTime]"

text \<open>
  The resume path of system initialisation as the specification describes it: the resume
  clock sequence, then the converter, the radio bus and I/O, and the watchdog.
\<close>

definition resume_path :: "build \<Rightarrow> env \<Rightarrow> mcu \<Rightarrow> mcu option" where
  "resume_path cfg env st = do {
     st \<leftarrow> SystemClockReConfig env st;
     Some (emits ([Driver (AdcInit POTI),
                   Driver (SpiInit RADIO_MOSI RADIO_MISO RADIO_SCLK NC),
                   Radio SX1272IoInit] @
                  (if USE_ENCODER cfg = 1
                   then [Driver EncoderInit, Driver (GpioWrite Led2 0),
                         Driver (GpioWrite Led3 0), Driver (GpioWrite Led4 0)]
                   else []) @
                  [Driver WdtInit]) st)
   }"

subsection \<open>Runs that do not return\<close>

text \<open>
  A sequence as a list of stages. \<open>run_stages\<close> runs them in order; \<open>reached\<close> is the state
  in which the run returns or, when a stage never returns, the state in which that stage
  was entered. It gives the events that a run has executed whether it returns or not.
\<close>

fun run_stages :: "(mcu \<Rightarrow> mcu option) list \<Rightarrow> mcu \<Rightarrow> mcu option" where
  "run_stages [] st = Some st"
| "run_stages (f # fs) st = f st \<bind> run_stages fs"

fun reached :: "(mcu \<Rightarrow> mcu option) list \<Rightarrow> mcu \<Rightarrow> mcu" where
  "reached [] st = st"
| "reached (f # fs) st = (case f st of None \<Rightarrow> st | Some s \<Rightarrow> reached fs s)"

text \<open>The stages of the resume clock sequence and of the cold clock sequence.\<close>

definition ReConfig_stages :: "env \<Rightarrow> (mcu \<Rightarrow> mcu option) list" where
  "ReConfig_stages env =
     [\<lambda>st. Some (emits [Reg RCC_PWR_CLK_ENABLE, Reg PWR_VOLTAGESCALING_CONFIG_SCALE1] st),
      spin_while (hw_flag_at env PWR_FLAG_VOS) (Read_flag PWR_FLAG_VOS) (\<lambda>v. v \<noteq> False),
      \<lambda>st. Some (emits [Reg RCC_HSE_CONFIG_ON] st),
      spin_while (hw_flag_at env RCC_FLAG_HSERDY) (Read_flag RCC_FLAG_HSERDY) (\<lambda>v. v = False),
      \<lambda>st. Some (emits [Reg RCC_PLL_CONFIG_HSE_MUL6_DIV3, Reg RCC_PLL_ENABLE] st),
      spin_while (hw_flag_at env RCC_FLAG_PLLRDY) (Read_flag RCC_FLAG_PLLRDY) (\<lambda>v. v = False),
      \<lambda>st. Some (emits [Reg RCC_SYSCLK_CONFIG_PLLCLK] st),
      spin_while (sysclk_source_at env) Read_SYSCLK_SOURCE
        (\<lambda>v. v \<noteq> RCC_SYSCLKSOURCE_STATUS_PLLCLK)]"

definition Config_stages :: "build \<Rightarrow> env \<Rightarrow> (mcu \<Rightarrow> mcu option) list" where
  "Config_stages cfg env =
     [\<lambda>st. Some (emits [Reg RCC_PWR_CLK_ENABLE, Reg PWR_VOLTAGESCALING_CONFIG_SCALE1] st),
      \<lambda>st. Some (emits [Hal HAL_RCC_OscConfig_called, Reg RCC_HSE_CONFIG_ON,
                         Reg RCC_LSE_CONFIG_ON] st),
      spin_while (hw_flag_at env RCC_FLAG_HSERDY) (Read_flag RCC_FLAG_HSERDY) (\<lambda>v. v = False),
      \<lambda>st. Some (emits [Reg RCC_PLL_CONFIG_HSE_MUL6_DIV3, Reg RCC_PLL_ENABLE] st),
      spin_while (hw_flag_at env RCC_FLAG_PLLRDY) (Read_flag RCC_FLAG_PLLRDY) (\<lambda>v. v = False),
      \<lambda>st. if OscConfig_status env \<noteq> HAL_OK then assert_param cfg FAIL st else Some st,
      \<lambda>st. Some (emits [Hal HAL_RCC_ClockConfig_called, Reg RCC_SYSCLK_CONFIG_PLLCLK,
                         Reg RCC_BUS_DIVIDERS_DIV1] st),
      \<lambda>st. if ClockConfig_status env \<noteq> HAL_OK then assert_param cfg FAIL st else Some st,
      \<lambda>st. Some (emits [Hal HAL_RCCEx_PeriphCLKConfig_called, Reg RCC_RTC_CONFIG_LSE] st),
      \<lambda>st. if PeriphCLKConfig_status env \<noteq> HAL_OK then assert_param cfg FAIL st else Some st,
      \<lambda>st. Some (emits [Hal (HAL_SYSTICK_Config (HCLKFreq env div 1000)),
                         Hal HAL_SYSTICK_CLKSourceConfig_HCLK,
                         Hal HAL_NVIC_SetPriority_SysTick] st)]"

subsection \<open>Observations in a trace\<close>

text \<open>The latest reading of flag \<open>fl\<close>, given the reading \<open>seen\<close> before the event.\<close>

fun observe :: "hw_flag \<Rightarrow> bool \<Rightarrow> event \<Rightarrow> bool" where
  "observe fl seen (Read_flag f v) = (if f = fl then v else seen)"
| "observe fl seen e = seen"

text \<open>
  \<open>ready_before fl step seen es\<close>: whenever \<open>step\<close> is executed in \<open>es\<close>, the latest
  reading of \<open>fl\<close> before it was SET.
\<close>

fun ready_before :: "hw_flag \<Rightarrow> event \<Rightarrow> bool \<Rightarrow> event list \<Rightarrow> bool" where
  "ready_before fl step seen [] = True"
| "ready_before fl step seen (e # es) =
     ((if e = step then seen else True) \<and> ready_before fl step (observe fl seen e) es)"

text \<open>The latest reading of the clock switch status.\<close>

fun report :: "sysclk_source option \<Rightarrow> event \<Rightarrow> sysclk_source option" where
  "report r (Read_SYSCLK_SOURCE s) = Some s"
| "report r e = r"

definition reported_sysclk :: "event list \<Rightarrow> sysclk_source option" where
  "reported_sysclk es = foldl report None es"

text \<open>
  The clock state \<open>Running\<close> of the specification, read off the trace: the main oscillator
  and the PLL were last seen ready, and the PLL was last reported as the system clock.
\<close>

definition clock_Running :: "event list \<Rightarrow> bool" where
  "clock_Running es \<longleftrightarrow>
     foldl (observe RCC_FLAG_HSERDY) False es \<and>
     foldl (observe RCC_FLAG_PLLRDY) False es \<and>
     reported_sysclk es = Some RCC_SYSCLKSOURCE_STATUS_PLLCLK"

text \<open>Every spin-wait of the clock sequences, whenever it starts, meets its condition.\<close>

definition eventually_ready :: "env \<Rightarrow> bool" where
  "eventually_ready env \<longleftrightarrow>
     (\<forall>t. \<exists>k. \<not> hw_flag_at env PWR_FLAG_VOS (t + k)) \<and>
     (\<forall>t. \<exists>k. hw_flag_at env RCC_FLAG_HSERDY (t + k)) \<and>
     (\<forall>t. \<exists>k. hw_flag_at env RCC_FLAG_PLLRDY (t + k)) \<and>
     (\<forall>t. \<exists>k. sysclk_source_at env (t + k) = RCC_SYSCLKSOURCE_STATUS_PLLCLK)"

subsection \<open>Critical sections in a trace\<close>

fun is_Msr_primask :: "event \<Rightarrow> bool" where
  "is_Msr_primask (Reg (Msr_primask m)) = True"
| "is_Msr_primask e = False"

text \<open>The events between the first interrupt-disable and the next write to PRIMASK.\<close>

definition critical_section_of :: "event list \<Rightarrow> event list" where
  "critical_section_of es =
     takeWhile (\<lambda>e. \<not> is_Msr_primask e) (drop 1 (dropWhile (\<lambda>e. e \<noteq> Reg Cpsid_i) es))"

text \<open>The events after that write to PRIMASK.\<close>

definition after_critical_section :: "event list \<Rightarrow> event list" where
  "after_critical_section es =
     drop 1 (dropWhile (\<lambda>e. \<not> is_Msr_primask e) (drop 1 (dropWhile (\<lambda>e. e \<noteq> Reg Cpsid_i) es)))"

subsection \<open>Event lists of the sequences\<close>

text \<open>A step that only advances the observation count and extends the trace.\<close>

definition advance :: "nat \<Rightarrow> event list \<Rightarrow> mcu \<Rightarrow> mcu" where
  "advance k es st = st\<lparr>tick := tick st + k, trace := trace st @ es\<rparr>"

text \<open>The state in which a spin-wait returns after \<open>n\<close> busy readings.\<close>

definition spun :: "(nat \<Rightarrow> 'a) \<Rightarrow> ('a \<Rightarrow> event) \<Rightarrow> nat \<Rightarrow> mcu \<Rightarrow> mcu" where
  "spun rd ev n st =
     st\<lparr>tick := tick st + Suc n,
        trace := trace st @ map (\<lambda>i. ev (rd i)) [tick st ..< tick st + Suc n]\<rparr>"

text \<open>
  The state in which the calibration busy-wait returns when the handler runs at its
  \<open>n\<close>-th pass.
\<close>

definition calibrated_after :: "nat \<Rightarrow> mcu \<Rightarrow> mcu" where
  "calibrated_after n st =
     st\<lparr>SystemWakeupTimeCalibrated := True, tick := tick st + Suc n,
        trace := trace st @ [Timer RtcSetMcuWakeUpTime]\<rparr>"

text \<open>
  The events of a resume clock sequence that read the regulator flag busy \<open>n1\<close> times,
  the oscillator flag \<open>n2\<close> times and the PLL flag \<open>n3\<close> times, and the switch statuses
  \<open>vs\<close> before the PLL was reported.
\<close>

definition ReConfig_events :: "nat \<Rightarrow> nat \<Rightarrow> nat \<Rightarrow> sysclk_source list \<Rightarrow> event list" where
  "ReConfig_events n1 n2 n3 vs =
     [Reg RCC_PWR_CLK_ENABLE, Reg PWR_VOLTAGESCALING_CONFIG_SCALE1] @
     replicate n1 (Read_flag PWR_FLAG_VOS True) @ [Read_flag PWR_FLAG_VOS False] @
     [Reg RCC_HSE_CONFIG_ON] @
     replicate n2 (Read_flag RCC_FLAG_HSERDY False) @ [Read_flag RCC_FLAG_HSERDY True] @
     [Reg RCC_PLL_CONFIG_HSE_MUL6_DIV3, Reg RCC_PLL_ENABLE] @
     replicate n3 (Read_flag RCC_FLAG_PLLRDY False) @ [Read_flag RCC_FLAG_PLLRDY True] @
     [Reg RCC_SYSCLK_CONFIG_PLLCLK] @
     map Read_SYSCLK_SOURCE vs @ [Read_SYSCLK_SOURCE RCC_SYSCLKSOURCE_STATUS_PLLCLK]"

text \<open>
  The events of a cold clock sequence that read the oscillator flag busy \<open>n2\<close> times
  and the PLL flag \<open>n3\<close> times.
\<close>

definition Config_events :: "env \<Rightarrow> nat \<Rightarrow> nat \<Rightarrow> event list" where
  "Config_events env n2 n3 =
     [Reg RCC_PWR_CLK_ENABLE, Reg PWR_VOLTAGESCALING_CONFIG_SCALE1,
      Hal HAL_RCC_OscConfig_called, Reg RCC_HSE_CONFIG_ON, Reg RCC_LSE_CONFIG_ON] @
     replicate n2 (Read_flag RCC_FLAG_HSERDY False) @ [Read_flag RCC_FLAG_HSERDY True] @
     [Reg RCC_PLL_CONFIG_HSE_MUL6_DIV3, Reg RCC_PLL_ENABLE] @
     replicate n3 (Read_flag RCC_FLAG_PLLRDY False) @ [Read_flag RCC_FLAG_PLLRDY True] @
     [Hal HAL_RCC_ClockConfig_called, Reg RCC_SYSCLK_CONFIG_PLLCLK, Reg RCC_BUS_DIVIDERS_DIV1,
      Hal HAL_RCCEx_PeriphCLKConfig_called, Reg RCC_RTC_CONFIG_LSE,
      Hal (HAL_SYSTICK_Config (HCLKFreq env div 1000)),
      Hal HAL_SYSTICK_CLKSourceConfig_HCLK,
      Hal HAL_NVIC_SetPriority_SysTick]"

text \<open>The parts of the cold boot that depend on the build.\<close>

definition led1_early :: "build \<Rightarrow> event list" where
  "led1_early cfg =
     (if USE_POTENTIOMETER cfg = 0
      then [Driver (GpioInit Led1 LED_1 PIN_OUTPUT PIN_PUSH_PULL PIN_NO_PULL 1)] else [])"

definition led1_off :: "build \<Rightarrow> event list" where
  "led1_off cfg = (if USE_POTENTIOMETER cfg = 0 then [Driver (GpioWrite Led1 0)] else [])"

definition unused_io_events :: "build \<Rightarrow> event list" where
  "unused_io_events cfg =
     [Driver (GpioInit ioPin USB_DM PIN_ANALOGIC PIN_PUSH_PULL PIN_NO_PULL 0),
      Driver (GpioInit ioPin USB_DP PIN_ANALOGIC PIN_PUSH_PULL PIN_NO_PULL 0)] @
     (if USE_DEBUGGER cfg
      then [Hal (HAL_DBGMCU EnableDBGSleepMode),
            Hal (HAL_DBGMCU EnableDBGStopMode),
            Hal (HAL_DBGMCU EnableDBGStandbyMode),
            Hal (HAL_DBGMCU FREEZE_WWDG),
            Hal (HAL_DBGMCU FREEZE_IWDG)]
      else [Hal (HAL_DBGMCU DisableDBGSleepMode),
            Hal (HAL_DBGMCU DisableDBGStopMode),
            Hal (HAL_DBGMCU DisableDBGStandbyMode),
            Hal (HAL_DBGMCU UNFREEZE_WWDG),
            Hal (HAL_DBGMCU UNFREEZE_IWDG),
            Driver (GpioInit ioPin JTAG_TMS PIN_ANALOGIC PIN_PUSH_PULL PIN_NO_PULL 0),
            Driver (GpioInit ioPin JTAG_TCK PIN_ANALOGIC PIN_PUSH_PULL PIN_NO_PULL 0),
            Driver (GpioInit ioPin JTAG_TDI PIN_ANALOGIC PIN_PUSH_PULL PIN_NO_PULL 0),
            Driver (GpioInit ioPin JTAG_TDO PIN_ANALOGIC PIN_PUSH_PULL PIN_NO_PULL 0),
            Driver (GpioInit ioPin JTAG_NRST PIN_ANALOGIC PIN_PUSH_PULL PIN_NO_PULL 0)])"

text \<open>The converter, the radio bus and the radio I/O, rebuilt by every initialisation.\<close>

definition rebuild_events :: "build \<Rightarrow> event list" where
  "rebuild_events cfg =
     [Driver (AdcInit POTI),
      Driver (SpiInit RADIO_MOSI RADIO_MISO RADIO_SCLK NC),
      Radio SX1272IoInit] @
     (if USE_ENCODER cfg = 1
      then [Driver EncoderInit, Driver (GpioWrite Led2 0),
            Driver (GpioWrite Led3 0), Driver (GpioWrite Led4 0)]
      else [])"

text \<open>The events of a first call of \<open>BoardInitMcu\<close> that returns.\<close>

definition cold_boot_events :: "build \<Rightarrow> env \<Rightarrow> nat \<Rightarrow> nat \<Rightarrow> event list" where
  "cold_boot_events cfg env n2 n3 =
     [Hal HAL_Init] @
     (if USE_POTENTIOMETER cfg = 0
      then [Driver (GpioInit Led1 LED_1 PIN_OUTPUT PIN_PUSH_PULL PIN_NO_PULL 1)] else []) @
     Config_events env n2 n3 @
     [Driver (FifoInit Uart1_FifoTx 1024),
      Driver (FifoInit Uart1_FifoRx 1024),
      Driver UartInit,
      Driver (UartConfig 115200),
      Driver RtcInit] @
     (if USE_POTENTIOMETER cfg = 0 then [Driver (GpioWrite Led1 0)] else []) @
     [Driver (GpioInit Led1 LED_1 PIN_OUTPUT PIN_PUSH_PULL PIN_NO_PULL 1),
      Driver (GpioInit Led2 LED_2 PIN_OUTPUT PIN_PUSH_PULL PIN_NO_PULL 1),
      Driver (GpioInit Led3 LED_3 PIN_OUTPUT PIN_PUSH_PULL PIN_NO_PULL 1),
      Driver (GpioInit Led4 LED_4 PIN_OUTPUT PIN_PUSH_PULL PIN_NO_PULL 1)] @
     unused_io_events cfg @
     [Driver LpmSetOffMode_LPM_APPLI_ID_LPM_DISABLE] @
     rebuild_events cfg @
     [Radio SX1272IoDbgInit, Radio SX1272IoTcxoInit,
      Timer TimerInit, Timer (TimerSetValue 1000), Timer TimerStart,
      Timer RtcSetMcuWakeUpTime,
      Driver WdtInit]"

text \<open>The events of a later call of \<open>BoardInitMcu\<close> that returns.\<close>

definition resume_events :: "build \<Rightarrow> nat \<Rightarrow> nat \<Rightarrow> nat \<Rightarrow> sysclk_source list \<Rightarrow> event list" where
  "resume_events cfg n1 n2 n3 vs =
     ReConfig_events n1 n2 n3 vs @ rebuild_events cfg @ [Driver WdtInit]"

text \<open>What a cold boot does only on battery power.\<close>

definition battery_only_events :: "event list" where
  "battery_only_events =
     [Driver LpmSetOffMode_LPM_APPLI_ID_LPM_DISABLE,
      Driver (GpioInit ioPin USB_DM PIN_ANALOGIC PIN_PUSH_PULL PIN_NO_PULL 0),
      Driver (GpioInit ioPin USB_DP PIN_ANALOGIC PIN_PUSH_PULL PIN_NO_PULL 0),
      Timer TimerInit,
      Timer (TimerSetValue 1000),
      Timer TimerStart,
      Timer RtcSetMcuWakeUpTime]"

text \<open>
  The order of the clock bring-up in the events executed so far: the PLL is enabled only
  after the oscillator flag was last read as set, and the PLL is selected as system clock
  only after the PLL flag was last read as set.
\<close>

definition ordered_so_far :: "event list \<Rightarrow> bool" where
  "ordered_so_far es \<longleftrightarrow>
     ready_before RCC_FLAG_HSERDY (Reg RCC_PLL_ENABLE) False es \<and>
     ready_before RCC_FLAG_PLLRDY (Reg RCC_SYSCLK_CONFIG_PLLCLK) False es"

text \<open>The same for a completed bring-up, in which both steps are executed.\<close>

definition ordered_bring_up :: "event list \<Rightarrow> bool" where
  "ordered_bring_up es \<longleftrightarrow>
     Reg RCC_PLL_ENABLE \<in> set es \<and>
     Reg RCC_SYSCLK_CONFIG_PLLCLK \<in> set es \<and>
     ordered_so_far es"

text \<open>
  Two runs \<open>ra\<close> from \<open>a\<close> and \<open>rb\<close> from \<open>b\<close> agree: neither returns, or both return after the
  same number of observations and the same events.
\<close>

definition agree :: "mcu option \<Rightarrow> mcu \<Rightarrow> mcu option \<Rightarrow> mcu \<Rightarrow> bool" where
  "agree ra a rb b \<longleftrightarrow>
     (ra = None \<and> rb = None) \<or>
     (\<exists>k es. ra = Some (advance k es a) \<and> rb = Some (advance k es b))"

text \<open>\<open>f\<close> depends on the state only through the observation count.\<close>

definition clocked :: "(mcu \<Rightarrow> mcu option) \<Rightarrow> bool" where
  "clocked f \<longleftrightarrow> (\<forall>a b. tick a = tick b \<longrightarrow> agree (f a) a (f b) b)"

text \<open>
  \<open>adds s s' c w\<close>: the step from \<open>s\<close> to \<open>s'\<close> extended the trace by events among which
  every cold-boot mark occurs \<open>c\<close> times and the watchdog initialisation \<open>w\<close> times.
\<close>

definition adds :: "mcu \<Rightarrow> mcu \<Rightarrow> nat \<Rightarrow> nat \<Rightarrow> bool" where
  "adds s s' c w \<longleftrightarrow>
     (\<exists>es. trace s' = trace s @ es \<and>
           (\<forall>e\<in>set cold_boot_marks. count_list es e = c) \<and>
           count_list es (Driver WdtInit) = w)"

subsection \<open>Concrete inputs\<close>

text \<open>The state after reset: both static flags false, interrupts enabled.\<close>

definition power_on :: mcu where
  "power_on = \<lparr>McuInitialized = False, SystemWakeupTimeCalibrated = False, PRIMASK = False,
               tick = 0, trace = []\<rparr>"

text \<open>
  Hardware on which the regulator flag is still set at the first observation, the
  oscillator and PLL flags are set at every odd observation, the switch status reports
  the PLL from observation 8 on, and the calibration timer's interrupt is raised from
  observation 1 on.
\<close>

definition hw_ok :: env where
  "hw_ok = \<lparr>hw_flag_at = (\<lambda>f t. if f = PWR_FLAG_VOS then t < 1 else odd t),
            sysclk_source_at = (\<lambda>t. if t < 8 then RCC_SYSCLKSOURCE_STATUS_MSI
                                      else RCC_SYSCLKSOURCE_STATUS_PLLCLK),
            timer_irq_at = (\<lambda>t. 1 \<le> t),
            OscConfig_status = HAL_OK,
            ClockConfig_status = HAL_OK,
            PeriphCLKConfig_status = HAL_OK,
            HCLKFreq = 32000000\<rparr>"

text \<open>Hardware on which the oscillator is ready at once and the PLL never locks.\<close>

definition hw_PLL_dead :: env where
  "hw_PLL_dead = hw_ok\<lparr>hw_flag_at := (\<lambda>f t. f = RCC_FLAG_HSERDY)\<rparr>"

text \<open>The same hardware with a clock-tree configuration call that reports an error.\<close>

definition hw_ClockConfig_error :: env where
  "hw_ClockConfig_error = hw_ok\<lparr>ClockConfig_status := HAL_ERROR\<rparr>"

definition release_build :: build where
  "release_build = \<lparr>USE_POTENTIOMETER = 0, USE_ENCODER = 1, USE_DEBUGGER = False,
                    USE_FULL_ASSERT = False\<rparr>"

definition assert_build :: build where
  "assert_build = release_build\<lparr>USE_FULL_ASSERT := True\<rparr>"

section \<open>Properties\<close>

subsection \<open>Loops\<close>

lemma infinite_loop_None: "infinite_loop st = None"
proof (cases "infinite_loop st")
  case None
  then show ?thesis .
next
  case (Some y)
  have False
    by (rule infinite_loop.raw_induct [where P = "\<lambda>_ _. False", OF _ Some]) blast
  then show ?thesis ..
qed

lemma assert_failed_None: "assert_failed st = None"
  by (simp add: assert_failed_def infinite_loop_None)

lemma spin_while_returns:
  "(\<forall>i<n. busy (rd (tick st + i))) \<Longrightarrow> \<not> busy (rd (tick st + n)) \<Longrightarrow>
   spin_while rd ev busy st = Some (spun rd ev n st)"
proof (induction n arbitrary: st)
  case 0
  then show ?case
    by (subst spin_while.simps) (simp add: spun_def)
next
  case (Suc n)
  let ?st1 = "st\<lparr>tick := Suc (tick st), trace := trace st @ [ev (rd (tick st))]\<rparr>"
  from Suc.prems(1) have b0: "busy (rd (tick st))"
    by (metis add.right_neutral zero_less_Suc)
  have "\<forall>i<n. busy (rd (tick ?st1 + i))"
    using Suc.prems(1) by (auto dest: spec [where x = "Suc i" for i])
  moreover have "\<not> busy (rd (tick ?st1 + n))"
    using Suc.prems(2) by simp
  ultimately have "spin_while rd ev busy ?st1 = Some (spun rd ev n ?st1)"
    by (rule Suc.IH)
  moreover have "spun rd ev n ?st1 = spun rd ev (Suc n) st"
    by (simp add: spun_def upt_conv_Cons del: upt_Suc)
  ultimately show ?case
    using b0 by (subst spin_while.simps) simp
qed

lemma spin_while_SomeD:
  assumes "spin_while rd ev busy st = Some st'"
  shows "\<exists>n. (\<forall>i<n. busy (rd (tick st + i))) \<and> \<not> busy (rd (tick st + n)) \<and> st' = spun rd ev n st"
proof (rule spin_while.raw_induct
    [where P = "\<lambda>rd ev busy st st'.
       \<exists>n. (\<forall>i<n. busy (rd (tick st + i))) \<and> \<not> busy (rd (tick st + n)) \<and> st' = spun rd ev n st"],
    goal_cases)
  case (1 spin_while rd ev busy st st')
  show ?case
  proof (cases "busy (rd (tick st))")
    case False
    with 1(2) have "st' = spun rd ev 0 st"
      by (simp add: spun_def)
    with False show ?thesis
      by (intro exI [where x = 0]) simp
  next
    case True
    let ?st1 = "st\<lparr>tick := Suc (tick st), trace := trace st @ [ev (rd (tick st))]\<rparr>"
    from True 1(2) have "spin_while rd ev busy ?st1 = Some st'"
      by simp
    from 1(1) [OF this] obtain n where
      n: "\<forall>i<n. busy (rd (tick ?st1 + i))" "\<not> busy (rd (tick ?st1 + n))" "st' = spun rd ev n ?st1"
      by blast
    have "\<forall>i<Suc n. busy (rd (tick st + i))"
    proof (intro allI impI)
      fix i assume "i < Suc n"
      show "busy (rd (tick st + i))"
      proof (cases i)
        case 0
        with True show ?thesis by simp
      next
        case (Suc j)
        with \<open>i < Suc n\<close> n(1) show ?thesis by auto
      qed
    qed
    moreover have "\<not> busy (rd (tick st + Suc n))"
      using n(2) by simp
    moreover have "st' = spun rd ev (Suc n) st"
      using n(3) by (simp add: spun_def upt_conv_Cons del: upt_Suc)
    ultimately show ?thesis
      by blast
  qed
qed (rule assms)

lemma count_list_replicate_eq: "count_list (replicate n x) y = (if x = y then n else 0)"
  by (induction n) auto

lemma new_events_append: "trace st' = trace st @ es \<Longrightarrow> new_events st st' = es"
  by (simp add: new_events_def)

subsection \<open>Critical-section pairing\<close>

lemma PRIMASK_emits: "PRIMASK (emits es st) = PRIMASK st"
  by (simp add: emits_def)

lemma bit0_get_PRIMASK: "bit (get_PRIMASK st) 0 = PRIMASK st"
  by (simp add: get_PRIMASK_def)

text \<open>
  C5. A Begin/End pair with the token that Begin produced restores the interrupt mask to
  the value it had before Begin, whether interrupts were enabled or disabled before, and
  interrupts are masked between the two calls.
\<close>

theorem critical_section_restores:
  "PRIMASK (snd (BoardCriticalSectionBegin st)) = True \<and>
   PRIMASK (BoardCriticalSectionEnd (fst (BoardCriticalSectionBegin st))
              (snd (BoardCriticalSectionBegin st))) = PRIMASK st"
  by (simp add: BoardCriticalSectionBegin_def BoardCriticalSectionEnd_def
      disable_irq_def set_PRIMASK_def PRIMASK_emits bit0_get_PRIMASK)

theorem critical_section_restores_witness:
  "PRIMASK (BoardCriticalSectionEnd (fst (BoardCriticalSectionBegin power_on))
      (snd (BoardCriticalSectionBegin power_on))) = False \<and>
   PRIMASK (BoardCriticalSectionEnd
      (fst (BoardCriticalSectionBegin (power_on\<lparr>PRIMASK := True\<rparr>)))
      (snd (BoardCriticalSectionBegin (power_on\<lparr>PRIMASK := True\<rparr>)))) = True"
  using critical_section_restores [of power_on]
    critical_section_restores [of "power_on\<lparr>PRIMASK := True\<rparr>"]
  by (simp add: power_on_def)

subsection \<open>Entering stop mode\<close>

lemma LpmEnterStopMode_trace:
  "trace (LpmEnterStopMode st) = trace st @
     [Reg Cpsid_i,
      Driver AdcDeInit, Driver SpiDeInit, Radio SX1272IoDeInit,
      Driver (GpioInit ioPin OSC_HSE_IN PIN_ANALOGIC PIN_PUSH_PULL PIN_NO_PULL 1),
      Driver (GpioInit ioPin OSC_HSE_OUT PIN_ANALOGIC PIN_PUSH_PULL PIN_NO_PULL 1),
      Driver (GpioInit ioPin OSC_LSE_IN PIN_INPUT PIN_PUSH_PULL PIN_PULL_DOWN 1),
      Driver (GpioInit ioPin OSC_LSE_OUT PIN_INPUT PIN_PUSH_PULL PIN_PULL_DOWN 1),
      Hal HAL_PWR_DisablePVD, Reg SET_BIT_PWR_CR_CWUF,
      Hal HAL_PWREx_EnableUltraLowPower, Hal HAL_PWREx_EnableFastWakeUp,
      Reg (Msr_primask (get_PRIMASK st)),
      Hal HAL_PWR_EnterSTOPMode_LOWPOWERREGULATOR_ON_WFI]"
  by (simp add: LpmEnterStopMode_def BoardCriticalSectionBegin_def BoardCriticalSectionEnd_def
      BoardDeInitMcu_def disable_irq_def set_PRIMASK_def emits_def)

text \<open>
  C3, as the code has it. In every run of \<open>LpmEnterStopMode\<close> the teardown of the
  converter and of the radio bus and I/O, the setting of the oscillator pins, the
  disabling of the voltage detector, the clearing of the wake-up flag and the enabling of
  ultra-low-power mode and fast wake-up are executed, in this order, inside one critical
  section; the only event after the critical section is the entry into stop mode with the
  regulator in low-power mode.
\<close>

theorem LpmEnterStopMode_order:
  "critical_section_of (new_events st (LpmEnterStopMode st)) =
     [Driver AdcDeInit, Driver SpiDeInit, Radio SX1272IoDeInit,
      Driver (GpioInit ioPin OSC_HSE_IN PIN_ANALOGIC PIN_PUSH_PULL PIN_NO_PULL 1),
      Driver (GpioInit ioPin OSC_HSE_OUT PIN_ANALOGIC PIN_PUSH_PULL PIN_NO_PULL 1),
      Driver (GpioInit ioPin OSC_LSE_IN PIN_INPUT PIN_PUSH_PULL PIN_PULL_DOWN 1),
      Driver (GpioInit ioPin OSC_LSE_OUT PIN_INPUT PIN_PUSH_PULL PIN_PULL_DOWN 1),
      Hal HAL_PWR_DisablePVD, Reg SET_BIT_PWR_CR_CWUF,
      Hal HAL_PWREx_EnableUltraLowPower, Hal HAL_PWREx_EnableFastWakeUp] \<and>
   after_critical_section (new_events st (LpmEnterStopMode st)) =
     [Hal HAL_PWR_EnterSTOPMode_LOWPOWERREGULATOR_ON_WFI]"
  by (simp add: new_events_append [OF LpmEnterStopMode_trace]
      critical_section_of_def after_critical_section_def)

theorem LpmEnterStopMode_order_witness:
  "after_critical_section (new_events power_on (LpmEnterStopMode power_on)) =
     [Hal HAL_PWR_EnterSTOPMode_LOWPOWERREGULATOR_ON_WFI]"
  using LpmEnterStopMode_order [of power_on] by simp

text \<open>
  The voltage detector is disabled inside the critical section, not after it.
\<close>

theorem LpmEnterStopMode_PVD_counterexample:
  "Hal HAL_PWR_DisablePVD \<notin> set (after_critical_section (new_events power_on (LpmEnterStopMode power_on))) \<and>
   Hal HAL_PWR_DisablePVD \<in> set (critical_section_of (new_events power_on (LpmEnterStopMode power_on)))"
  by (simp add: new_events_append [OF LpmEnterStopMode_trace]
      critical_section_of_def after_critical_section_def)

subsection \<open>Calibration\<close>

lemma wait_calibrated_done:
  "SystemWakeupTimeCalibrated st \<Longrightarrow> wait_calibrated env st = Some st"
  by (subst wait_calibrated.simps) simp

lemma wait_calibrated_returns:
  "\<not> SystemWakeupTimeCalibrated st \<Longrightarrow> \<not> PRIMASK st \<Longrightarrow>
   (\<forall>i<n. \<not> timer_irq_at env (tick st + i)) \<Longrightarrow> timer_irq_at env (tick st + n) \<Longrightarrow>
   wait_calibrated env st = Some (calibrated_after n st)"
proof (induction n arbitrary: st)
  case 0
  then have "interrupt_window env st = calibrated_after 0 st"
    by (simp add: interrupt_window_def OnCalibrateSystemWakeupTimeTimerEvent_def
        calibrated_after_def emits_def)
  with 0 show ?case
    by (subst wait_calibrated.simps) (simp add: wait_calibrated_done calibrated_after_def)
next
  case (Suc n)
  let ?st1 = "st\<lparr>tick := Suc (tick st)\<rparr>"
  from Suc.prems(3) have "\<not> timer_irq_at env (tick st)"
    by (metis add.right_neutral zero_less_Suc)
  then have w: "interrupt_window env st = ?st1"
    by (simp add: interrupt_window_def)
  have "\<forall>i<n. \<not> timer_irq_at env (tick ?st1 + i)"
    using Suc.prems(3) by (auto dest: spec [where x = "Suc i" for i])
  with Suc.prems have "wait_calibrated env ?st1 = Some (calibrated_after n ?st1)"
    by (intro Suc.IH) simp_all
  moreover have "calibrated_after n ?st1 = calibrated_after (Suc n) st"
    by (simp add: calibrated_after_def)
  ultimately show ?case
    using Suc.prems(1) w by (subst wait_calibrated.simps) simp
qed

lemma wait_calibrated_SomeD:
  assumes "wait_calibrated env st = Some st'"
  shows "(SystemWakeupTimeCalibrated st \<and> st' = st) \<or>
         (\<not> SystemWakeupTimeCalibrated st \<and> (\<exists>n. st' = calibrated_after n st))"
proof (rule wait_calibrated.raw_induct
    [where P = "\<lambda>env st st'. (SystemWakeupTimeCalibrated st \<and> st' = st) \<or>
         (\<not> SystemWakeupTimeCalibrated st \<and> (\<exists>n. st' = calibrated_after n st))"],
    goal_cases)
  case (1 wait_calibrated env st st')
  show ?case
  proof (cases "SystemWakeupTimeCalibrated st")
    case True
    with 1(2) show ?thesis by simp
  next
    case False
    with 1(2) have "wait_calibrated env (interrupt_window env st) = Some st'"
      by simp
    from 1(1) [OF this] show ?thesis
    proof (elim disjE conjE exE)
      assume "SystemWakeupTimeCalibrated (interrupt_window env st)"
        and "st' = interrupt_window env st"
      with False have "st' = calibrated_after 0 st"
        by (auto simp: interrupt_window_def OnCalibrateSystemWakeupTimeTimerEvent_def
            calibrated_after_def emits_def split: if_splits)
      with False show ?thesis by blast
    next
      fix n
      assume a: "\<not> SystemWakeupTimeCalibrated (interrupt_window env st)"
        and b: "st' = calibrated_after n (interrupt_window env st)"
      from a have "interrupt_window env st = st\<lparr>tick := Suc (tick st)\<rparr>"
        by (auto simp: interrupt_window_def OnCalibrateSystemWakeupTimeTimerEvent_def
            emits_def split: if_splits)
      with b have "st' = calibrated_after (Suc n) st"
        by (simp add: calibrated_after_def)
      with False show ?thesis by blast
    qed
  qed
qed (rule assms)

lemma CalibrateSystemWakeupTime_SomeD:
  assumes "\<not> SystemWakeupTimeCalibrated st" and "CalibrateSystemWakeupTime env st = Some st'"
  shows "\<exists>n. st' = st\<lparr>SystemWakeupTimeCalibrated := True, tick := tick st + Suc n,
            trace := trace st @ [Timer TimerInit, Timer (TimerSetValue 1000), Timer TimerStart,
                                 Timer RtcSetMcuWakeUpTime]\<rparr>"
proof -
  let ?st1 = "emits [Timer TimerInit, Timer (TimerSetValue 1000), Timer TimerStart] st"
  from assms have "wait_calibrated env ?st1 = Some st'"
    by (simp add: CalibrateSystemWakeupTime_def)
  from wait_calibrated_SomeD [OF this] assms(1) obtain n where "st' = calibrated_after n ?st1"
    by (auto simp: emits_def)
  then show ?thesis
    by (intro exI [where x = n]) (simp add: calibrated_after_def emits_def)
qed

text \<open>
  C4. When a first call of \<open>CalibrateSystemWakeupTime\<close> from the uncalibrated state returns,
  the state is calibrated, the timer was initialised, set to 1000 and started exactly once,
  and a second call returns at once in the same state, so it adds no event.
\<close>

theorem calibration_arms_timer_once:
  assumes "\<not> SystemWakeupTimeCalibrated st"
    and "CalibrateSystemWakeupTime env st = Some st1"
  shows "SystemWakeupTimeCalibrated st1 \<and>
         CalibrateSystemWakeupTime env st1 = Some st1 \<and>
         count_list (new_events st st1) (Timer TimerInit) = 1 \<and>
         count_list (new_events st st1) (Timer (TimerSetValue 1000)) = 1 \<and>
         count_list (new_events st st1) (Timer TimerStart) = 1"
proof -
  from CalibrateSystemWakeupTime_SomeD [OF assms] obtain n where
    st1: "st1 = st\<lparr>SystemWakeupTimeCalibrated := True, tick := tick st + Suc n,
            trace := trace st @ [Timer TimerInit, Timer (TimerSetValue 1000), Timer TimerStart,
                                 Timer RtcSetMcuWakeUpTime]\<rparr>"
    by blast
  then have cal: "SystemWakeupTimeCalibrated st1"
    by simp
  then have "CalibrateSystemWakeupTime env st1 = Some st1"
    by (simp add: CalibrateSystemWakeupTime_def)
  moreover from st1 have "new_events st st1 =
      [Timer TimerInit, Timer (TimerSetValue 1000), Timer TimerStart, Timer RtcSetMcuWakeUpTime]"
    by (simp add: new_events_def)
  ultimately show ?thesis
    using cal by simp
qed

lemma CalibrateSystemWakeupTime_power_on:
  "CalibrateSystemWakeupTime hw_ok power_on =
     Some \<lparr>McuInitialized = False, SystemWakeupTimeCalibrated = True, PRIMASK = False, tick = 2,
           trace = [Timer TimerInit, Timer (TimerSetValue 1000), Timer TimerStart,
                    Timer RtcSetMcuWakeUpTime]\<rparr>"
  by (simp add: CalibrateSystemWakeupTime_def power_on_def hw_ok_def emits_def
      wait_calibrated_returns [where n = 1] calibrated_after_def)

theorem calibration_arms_timer_once_witness:
  "\<not> SystemWakeupTimeCalibrated power_on \<and>
   CalibrateSystemWakeupTime hw_ok
     \<lparr>McuInitialized = False, SystemWakeupTimeCalibrated = True, PRIMASK = False, tick = 2,
      trace = [Timer TimerInit, Timer (TimerSetValue 1000), Timer TimerStart,
               Timer RtcSetMcuWakeUpTime]\<rparr> =
     Some \<lparr>McuInitialized = False, SystemWakeupTimeCalibrated = True, PRIMASK = False, tick = 2,
      trace = [Timer TimerInit, Timer (TimerSetValue 1000), Timer TimerStart,
               Timer RtcSetMcuWakeUpTime]\<rparr> \<and>
   count_list (new_events power_on
     \<lparr>McuInitialized = False, SystemWakeupTimeCalibrated = True, PRIMASK = False, tick = 2,
      trace = [Timer TimerInit, Timer (TimerSetValue 1000), Timer TimerStart,
               Timer RtcSetMcuWakeUpTime]\<rparr>) (Timer TimerStart) = 1"
proof -
  have "\<not> SystemWakeupTimeCalibrated power_on"
    by (simp add: power_on_def)
  from this calibration_arms_timer_once [OF this CalibrateSystemWakeupTime_power_on]
  show ?thesis by simp
qed

subsection \<open>Clock sequences\<close>

lemma advance_advance: "advance k es (advance j ds st) = advance (j + k) (ds @ es) st"
  by (simp add: advance_def add.assoc)

lemma emits_advance: "emits es st = advance 0 es st"
  by (simp add: emits_def advance_def)

lemma advance_fields [simp]:
  "McuInitialized (advance k es st) = McuInitialized st"
  "SystemWakeupTimeCalibrated (advance k es st) = SystemWakeupTimeCalibrated st"
  "PRIMASK (advance k es st) = PRIMASK st"
  "tick (advance k es st) = tick st + k"
  "trace (advance k es st) = trace st @ es"
  by (simp_all add: advance_def)

lemma map_upt_const:
  "(\<forall>i<n. f (t + i) = c) \<Longrightarrow> map f [t ..< t + n] = replicate n c"
proof (induction n)
  case 0
  then show ?case by simp
next
  case (Suc n)
  then show ?case by (simp add: replicate_append_same)
qed

lemma spun_split:
  "spun rd ev n st = advance (Suc n) (map (\<lambda>i. ev (rd i)) [tick st ..< tick st + n] @ [ev (rd (tick st + n))]) st"
  by (simp add: spun_def advance_def)

lemma wait_set_SomeD:
  assumes "spin_while (hw_flag_at env fl) (Read_flag fl) (\<lambda>v. v = False) st = Some st'"
  shows "\<exists>n. st' = advance (Suc n) (replicate n (Read_flag fl False) @ [Read_flag fl True]) st"
proof -
  from spin_while_SomeD [OF assms] obtain n where
    n: "\<forall>i<n. hw_flag_at env fl (tick st + i) = False" "hw_flag_at env fl (tick st + n)"
      "st' = spun (hw_flag_at env fl) (Read_flag fl) n st"
    by auto
  from n(1) have "map (\<lambda>i. Read_flag fl (hw_flag_at env fl i)) [tick st ..< tick st + n] =
      replicate n (Read_flag fl False)"
    by (intro map_upt_const) simp
  with n(2,3) show ?thesis
    by (auto simp: spun_split)
qed

lemma wait_clear_SomeD:
  assumes "spin_while (hw_flag_at env fl) (Read_flag fl) (\<lambda>v. v \<noteq> False) st = Some st'"
  shows "\<exists>n. st' = advance (Suc n) (replicate n (Read_flag fl True) @ [Read_flag fl False]) st"
proof -
  from spin_while_SomeD [OF assms] obtain n where
    n: "\<forall>i<n. hw_flag_at env fl (tick st + i) = True" "\<not> hw_flag_at env fl (tick st + n)"
      "st' = spun (hw_flag_at env fl) (Read_flag fl) n st"
    by auto
  from n(1) have "map (\<lambda>i. Read_flag fl (hw_flag_at env fl i)) [tick st ..< tick st + n] =
      replicate n (Read_flag fl True)"
    by (intro map_upt_const) simp
  with n(2,3) show ?thesis
    by (auto simp: spun_split)
qed

lemma wait_sysclk_SomeD:
  assumes "spin_while (sysclk_source_at env) Read_SYSCLK_SOURCE
             (\<lambda>v. v \<noteq> RCC_SYSCLKSOURCE_STATUS_PLLCLK) st = Some st'"
  shows "\<exists>vs. RCC_SYSCLKSOURCE_STATUS_PLLCLK \<notin> set vs \<and>
           st' = advance (Suc (length vs))
                   (map Read_SYSCLK_SOURCE vs @ [Read_SYSCLK_SOURCE RCC_SYSCLKSOURCE_STATUS_PLLCLK]) st"
proof -
  from spin_while_SomeD [OF assms] obtain n where
    n: "\<forall>i<n. sysclk_source_at env (tick st + i) \<noteq> RCC_SYSCLKSOURCE_STATUS_PLLCLK"
      "sysclk_source_at env (tick st + n) = RCC_SYSCLKSOURCE_STATUS_PLLCLK"
      "st' = spun (sysclk_source_at env) Read_SYSCLK_SOURCE n st"
    by auto
  let ?vs = "map (sysclk_source_at env) [tick st ..< tick st + n]"
  have "RCC_SYSCLKSOURCE_STATUS_PLLCLK \<notin> set ?vs"
  proof
    assume "RCC_SYSCLKSOURCE_STATUS_PLLCLK \<in> set ?vs"
    then obtain j where "tick st \<le> j" "j < tick st + n"
      "sysclk_source_at env j = RCC_SYSCLKSOURCE_STATUS_PLLCLK"
      by auto
    with n(1) [rule_format, of "j - tick st"] show False
      by (simp add: less_diff_conv2 add.commute)
  qed
  moreover have "st' = advance (Suc (length ?vs))
      (map Read_SYSCLK_SOURCE ?vs @ [Read_SYSCLK_SOURCE RCC_SYSCLKSOURCE_STATUS_PLLCLK]) st"
    using n(2,3) by (simp add: spun_split comp_def)
  ultimately show ?thesis
    by blast
qed

lemma spin_while_eventually:
  assumes "\<exists>k. \<not> busy (rd (tick st + k))"
  shows "\<exists>st'. spin_while rd ev busy st = Some st'"
proof -
  define n where "n = (LEAST k. \<not> busy (rd (tick st + k)))"
  from assms have "\<not> busy (rd (tick st + n))"
    unfolding n_def by (rule LeastI_ex)
  moreover have "\<forall>i<n. busy (rd (tick st + i))"
    unfolding n_def using not_less_Least by blast
  ultimately show ?thesis
    using spin_while_returns [of n busy rd st ev] by blast
qed

lemma SystemClockReConfig_SomeD:
  assumes "SystemClockReConfig env st = Some st'"
  shows "\<exists>k n1 n2 n3 vs. RCC_SYSCLKSOURCE_STATUS_PLLCLK \<notin> set vs \<and>
           st' = advance k (ReConfig_events n1 n2 n3 vs) st"
proof -
  from assms obtain s1 s2 s3 where
    s1: "spin_while (hw_flag_at env PWR_FLAG_VOS) (Read_flag PWR_FLAG_VOS) (\<lambda>v. v \<noteq> False)
           (advance 0 [Reg RCC_PWR_CLK_ENABLE, Reg PWR_VOLTAGESCALING_CONFIG_SCALE1] st) = Some s1"
    and s2: "spin_while (hw_flag_at env RCC_FLAG_HSERDY) (Read_flag RCC_FLAG_HSERDY) (\<lambda>v. v = False)
           (advance 0 [Reg RCC_HSE_CONFIG_ON] s1) = Some s2"
    and s3: "spin_while (hw_flag_at env RCC_FLAG_PLLRDY) (Read_flag RCC_FLAG_PLLRDY) (\<lambda>v. v = False)
           (advance 0 [Reg RCC_PLL_CONFIG_HSE_MUL6_DIV3, Reg RCC_PLL_ENABLE] s2) = Some s3"
    and s4: "spin_while (sysclk_source_at env) Read_SYSCLK_SOURCE
           (\<lambda>v. v \<noteq> RCC_SYSCLKSOURCE_STATUS_PLLCLK)
           (advance 0 [Reg RCC_SYSCLK_CONFIG_PLLCLK] s3) = Some st'"
    by (auto simp: SystemClockReConfig_def emits_advance bind_eq_Some_conv)
  from wait_clear_SomeD [OF s1] obtain n1 where
    "s1 = advance (Suc n1) ([Reg RCC_PWR_CLK_ENABLE, Reg PWR_VOLTAGESCALING_CONFIG_SCALE1] @
       replicate n1 (Read_flag PWR_FLAG_VOS True) @ [Read_flag PWR_FLAG_VOS False]) st"
    by (auto simp: advance_advance)
  moreover from wait_set_SomeD [OF s2] obtain n2 where
    "s2 = advance (Suc n2) ([Reg RCC_HSE_CONFIG_ON] @
       replicate n2 (Read_flag RCC_FLAG_HSERDY False) @ [Read_flag RCC_FLAG_HSERDY True]) s1"
    by (auto simp: advance_advance)
  moreover from wait_set_SomeD [OF s3] obtain n3 where
    "s3 = advance (Suc n3) ([Reg RCC_PLL_CONFIG_HSE_MUL6_DIV3, Reg RCC_PLL_ENABLE] @
       replicate n3 (Read_flag RCC_FLAG_PLLRDY False) @ [Read_flag RCC_FLAG_PLLRDY True]) s2"
    by (auto simp: advance_advance)
  moreover from wait_sysclk_SomeD [OF s4] obtain vs where
    "RCC_SYSCLKSOURCE_STATUS_PLLCLK \<notin> set vs"
    "st' = advance (Suc (length vs)) ([Reg RCC_SYSCLK_CONFIG_PLLCLK] @
       map Read_SYSCLK_SOURCE vs @ [Read_SYSCLK_SOURCE RCC_SYSCLKSOURCE_STATUS_PLLCLK]) s3"
    by (auto simp: advance_advance)
  ultimately have "RCC_SYSCLKSOURCE_STATUS_PLLCLK \<notin> set vs \<and>
      st' = advance (Suc n1 + Suc n2 + Suc n3 + Suc (length vs)) (ReConfig_events n1 n2 n3 vs) st"
    by (simp add: advance_advance ReConfig_events_def)
  then show ?thesis
    by blast
qed

lemma SystemClockReConfig_returns:
  assumes "eventually_ready env"
  shows "\<exists>st'. SystemClockReConfig env st = Some st'"
proof -
  from assms have
    vos: "\<And>t. \<exists>k. \<not> hw_flag_at env PWR_FLAG_VOS (t + k) \<noteq> False"
    and hse: "\<And>t. \<exists>k. \<not> hw_flag_at env RCC_FLAG_HSERDY (t + k) = False"
    and pll: "\<And>t. \<exists>k. \<not> hw_flag_at env RCC_FLAG_PLLRDY (t + k) = False"
    and sws: "\<And>t. \<exists>k. \<not> sysclk_source_at env (t + k) \<noteq> RCC_SYSCLKSOURCE_STATUS_PLLCLK"
    by (simp_all add: eventually_ready_def)
  obtain s1 where s1: "spin_while (hw_flag_at env PWR_FLAG_VOS) (Read_flag PWR_FLAG_VOS)
      (\<lambda>v. v \<noteq> False) (emits [Reg RCC_PWR_CLK_ENABLE, Reg PWR_VOLTAGESCALING_CONFIG_SCALE1] st) = Some s1"
    using spin_while_eventually [where busy = "\<lambda>v. v \<noteq> False", OF vos] by blast
  obtain s2 where s2: "spin_while (hw_flag_at env RCC_FLAG_HSERDY) (Read_flag RCC_FLAG_HSERDY)
      (\<lambda>v. v = False) (emits [Reg RCC_HSE_CONFIG_ON] s1) = Some s2"
    using spin_while_eventually [where busy = "\<lambda>v. v = False", OF hse] by blast
  obtain s3 where s3: "spin_while (hw_flag_at env RCC_FLAG_PLLRDY) (Read_flag RCC_FLAG_PLLRDY)
      (\<lambda>v. v = False) (emits [Reg RCC_PLL_CONFIG_HSE_MUL6_DIV3, Reg RCC_PLL_ENABLE] s2) = Some s3"
    using spin_while_eventually [where busy = "\<lambda>v. v = False", OF pll] by blast
  obtain s4 where s4: "spin_while (sysclk_source_at env) Read_SYSCLK_SOURCE
      (\<lambda>v. v \<noteq> RCC_SYSCLKSOURCE_STATUS_PLLCLK) (emits [Reg RCC_SYSCLK_CONFIG_PLLCLK] s3) = Some s4"
    using spin_while_eventually [where busy = "\<lambda>v. v \<noteq> RCC_SYSCLKSOURCE_STATUS_PLLCLK", OF sws]
    by blast
  from s1 s2 s3 s4 show ?thesis
    by (simp add: SystemClockReConfig_def)
qed

lemma SystemClockConfig_SomeD:
  assumes "SystemClockConfig cfg env st = Some st'"
  shows "\<exists>k n2 n3. st' = advance k (Config_events env n2 n3) st \<and>
           (USE_FULL_ASSERT cfg \<longrightarrow>
              OscConfig_status env = HAL_OK \<and> ClockConfig_status env = HAL_OK \<and>
              PeriphCLKConfig_status env = HAL_OK)"
proof -
  from assms obtain s1 s2 where
    s1: "spin_while (hw_flag_at env RCC_FLAG_HSERDY) (Read_flag RCC_FLAG_HSERDY) (\<lambda>v. v = False)
           (advance 0 [Reg RCC_PWR_CLK_ENABLE, Reg PWR_VOLTAGESCALING_CONFIG_SCALE1,
                       Hal HAL_RCC_OscConfig_called, Reg RCC_HSE_CONFIG_ON, Reg RCC_LSE_CONFIG_ON] st) = Some s1"
    and s2: "spin_while (hw_flag_at env RCC_FLAG_PLLRDY) (Read_flag RCC_FLAG_PLLRDY) (\<lambda>v. v = False)
           (advance 0 [Reg RCC_PLL_CONFIG_HSE_MUL6_DIV3, Reg RCC_PLL_ENABLE] s1) = Some s2"
    and st': "st' = advance 0
           [Hal HAL_RCC_ClockConfig_called, Reg RCC_SYSCLK_CONFIG_PLLCLK, Reg RCC_BUS_DIVIDERS_DIV1,
            Hal HAL_RCCEx_PeriphCLKConfig_called, Reg RCC_RTC_CONFIG_LSE,
            Hal (HAL_SYSTICK_Config (HCLKFreq env div 1000)),
            Hal HAL_SYSTICK_CLKSourceConfig_HCLK,
            Hal HAL_NVIC_SetPriority_SysTick] s2"
    and ok: "USE_FULL_ASSERT cfg \<longrightarrow>
              OscConfig_status env = HAL_OK \<and> ClockConfig_status env = HAL_OK \<and>
              PeriphCLKConfig_status env = HAL_OK"
    by (auto simp: SystemClockConfig_def HAL_RCC_OscConfig_def HAL_RCC_ClockConfig_def
        HAL_RCCEx_PeriphCLKConfig_def assert_param_def assert_failed_None FAIL_def
        emits_advance advance_advance bind_eq_Some_conv split: if_splits)
  from wait_set_SomeD [OF s1] obtain n2 where
    "s1 = advance (Suc n2) ([Reg RCC_PWR_CLK_ENABLE, Reg PWR_VOLTAGESCALING_CONFIG_SCALE1,
                       Hal HAL_RCC_OscConfig_called, Reg RCC_HSE_CONFIG_ON, Reg RCC_LSE_CONFIG_ON] @
       replicate n2 (Read_flag RCC_FLAG_HSERDY False) @ [Read_flag RCC_FLAG_HSERDY True]) st"
    by (auto simp: advance_advance)
  moreover from wait_set_SomeD [OF s2] obtain n3 where
    "s2 = advance (Suc n3) ([Reg RCC_PLL_CONFIG_HSE_MUL6_DIV3, Reg RCC_PLL_ENABLE] @
       replicate n3 (Read_flag RCC_FLAG_PLLRDY False) @ [Read_flag RCC_FLAG_PLLRDY True]) s1"
    by (auto simp: advance_advance)
  ultimately have "st' = advance (Suc n2 + Suc n3) (Config_events env n2 n3) st"
    using st' by (simp add: advance_advance Config_events_def)
  with ok show ?thesis
    by blast
qed

lemma SystemClockConfig_returns:
  assumes "eventually_ready env"
    and "USE_FULL_ASSERT cfg \<longrightarrow>
           OscConfig_status env = HAL_OK \<and> ClockConfig_status env = HAL_OK \<and>
           PeriphCLKConfig_status env = HAL_OK"
  shows "\<exists>st'. SystemClockConfig cfg env st = Some st'"
proof -
  from assms(1) have
    hse: "\<And>t. \<exists>k. \<not> hw_flag_at env RCC_FLAG_HSERDY (t + k) = False"
    and pll: "\<And>t. \<exists>k. \<not> hw_flag_at env RCC_FLAG_PLLRDY (t + k) = False"
    by (simp_all add: eventually_ready_def)
  obtain s1 where s1: "spin_while (hw_flag_at env RCC_FLAG_HSERDY) (Read_flag RCC_FLAG_HSERDY)
      (\<lambda>v. v = False)
      (emits [Hal HAL_RCC_OscConfig_called, Reg RCC_HSE_CONFIG_ON, Reg RCC_LSE_CONFIG_ON]
         (emits [Reg RCC_PWR_CLK_ENABLE, Reg PWR_VOLTAGESCALING_CONFIG_SCALE1] st)) = Some s1"
    using spin_while_eventually [where busy = "\<lambda>v. v = False", OF hse] by blast
  obtain s2 where s2: "spin_while (hw_flag_at env RCC_FLAG_PLLRDY) (Read_flag RCC_FLAG_PLLRDY)
      (\<lambda>v. v = False) (emits [Reg RCC_PLL_CONFIG_HSE_MUL6_DIV3, Reg RCC_PLL_ENABLE] s1) = Some s2"
    using spin_while_eventually [where busy = "\<lambda>v. v = False", OF pll] by blast
  from s1 s2 assms(2) show ?thesis
    by (simp add: SystemClockConfig_def HAL_RCC_OscConfig_def HAL_RCC_ClockConfig_def
        HAL_RCCEx_PeriphCLKConfig_def assert_param_def)
qed

subsection \<open>Readings along the clock sequences\<close>

lemma foldl_observe_replicate:
  "foldl (observe fl) b (replicate n (Read_flag f v)) = (if f = fl \<and> 0 < n then v else b)"
  by (induction n arbitrary: b) auto

lemma foldl_observe_sysclk: "foldl (observe fl) b (map Read_SYSCLK_SOURCE vs) = b"
  by (induction vs arbitrary: b) auto

lemma foldl_report_replicate: "foldl report r (replicate n (Read_flag f v)) = r"
  by (induction n arbitrary: r) auto

lemma foldl_report_sysclk:
  "foldl report r (map Read_SYSCLK_SOURCE vs @ [Read_SYSCLK_SOURCE s]) = Some s"
  by (simp add: foldl_append)

lemma HSERDY_after_ReConfig:
  "foldl (observe RCC_FLAG_HSERDY) b (ReConfig_events n1 n2 n3 vs) = True"
  by (simp add: ReConfig_events_def foldl_observe_replicate foldl_observe_sysclk)

lemma PLLRDY_after_ReConfig:
  "foldl (observe RCC_FLAG_PLLRDY) b (ReConfig_events n1 n2 n3 vs) = True"
  by (simp add: ReConfig_events_def foldl_observe_replicate foldl_observe_sysclk)

lemma report_after_ReConfig:
  "foldl report r (ReConfig_events n1 n2 n3 vs) = Some RCC_SYSCLKSOURCE_STATUS_PLLCLK"
  by (simp add: ReConfig_events_def foldl_report_replicate)

lemma clock_Running_after_ReConfig: "clock_Running (tr @ ReConfig_events n1 n2 n3 vs)"
  by (simp add: clock_Running_def reported_sysclk_def HSERDY_after_ReConfig
      PLLRDY_after_ReConfig report_after_ReConfig)

lemma ready_before_append:
  "ready_before fl step seen (xs @ ys) \<longleftrightarrow>
     ready_before fl step seen xs \<and> ready_before fl step (foldl (observe fl) seen xs) ys"
  by (induction xs arbitrary: seen) auto

lemma ready_before_absent: "step \<notin> set es \<Longrightarrow> ready_before fl step seen es"
  by (induction es arbitrary: seen) auto

lemma eventually_ready_hw_ok: "eventually_ready hw_ok"
proof -
  have "\<exists>k. odd (t + k)" for t :: nat
    by presburger
  moreover have "\<exists>k. \<not> t + k < 8" for t :: nat
    by presburger
  moreover have "\<exists>k. \<not> t + k < 1" for t :: nat
    by presburger
  ultimately show ?thesis
    by (simp add: eventually_ready_def hw_ok_def)
qed

text \<open>
  C6. When every spin-wait eventually meets its condition, \<open>N\<close> consecutive runs of the
  resume clock sequence all return, and after each of them the clock is \<open>Running\<close>: the
  oscillator and the PLL were last seen ready and the switch status last read reports the
  PLL as the system clock.
\<close>

theorem resume_sequence_repeatable:
  assumes "eventually_ready env"
  shows "\<exists>sts. consecutive_calls (SystemClockReConfig env) N st = Some sts \<and>
           length sts = N \<and>
           (\<forall>s\<in>set sts. clock_Running (trace s) \<and>
              reported_sysclk (trace s) = Some RCC_SYSCLKSOURCE_STATUS_PLLCLK)"
proof (induction N arbitrary: st)
  case 0
  show ?case by simp
next
  case (Suc N)
  from SystemClockReConfig_returns [OF assms] obtain st1 where
    st1: "SystemClockReConfig env st = Some st1"
    by blast
  from SystemClockReConfig_SomeD [OF st1] obtain k n1 n2 n3 vs where
    "trace st1 = trace st @ ReConfig_events n1 n2 n3 vs"
    by auto
  then have run: "clock_Running (trace st1)"
    by (simp add: clock_Running_after_ReConfig)
  from Suc.IH [of st1] obtain sts where
    sts: "consecutive_calls (SystemClockReConfig env) N st1 = Some sts" "length sts = N"
      "\<forall>s\<in>set sts. clock_Running (trace s) \<and>
              reported_sysclk (trace s) = Some RCC_SYSCLKSOURCE_STATUS_PLLCLK"
    by blast
  from st1 sts(1) have "consecutive_calls (SystemClockReConfig env) (Suc N) st = Some (st1 # sts)"
    by simp
  with run sts(2,3) show ?case
    by (auto simp: clock_Running_def)
qed

theorem resume_sequence_repeatable_witness:
  "eventually_ready hw_ok \<and>
   map_option (map (\<lambda>s. clock_Running (trace s)))
     (consecutive_calls (SystemClockReConfig hw_ok) 3 power_on) = Some [True, True, True]"
proof -
  from resume_sequence_repeatable [OF eventually_ready_hw_ok, of 3 power_on] obtain sts where
    sts: "consecutive_calls (SystemClockReConfig hw_ok) 3 power_on = Some sts" "length sts = 3"
      "\<forall>s\<in>set sts. clock_Running (trace s)"
    by blast
  from sts(2) obtain a b c where "sts = [a, b, c]"
    by (auto simp: length_Suc_conv numeral_3_eq_3)
  with sts(1,3) eventually_ready_hw_ok show ?thesis
    by simp
qed

subsection \<open>Runs of the clock sequences that do not return\<close>

lemma run_stages_Nil: "run_stages [] = Some"
  by (rule ext) simp

lemma run_stages_Cons: "run_stages (f # fs) = (\<lambda>st. f st \<bind> run_stages fs)"
  by (rule ext) simp

lemma SystemClockReConfig_stages:
  "SystemClockReConfig env st = run_stages (ReConfig_stages env) st"
  by (simp add: SystemClockReConfig_def ReConfig_stages_def run_stages_Nil run_stages_Cons)

lemma SystemClockConfig_stages:
  "SystemClockConfig cfg env st = run_stages (Config_stages cfg env) st"
  by (simp add: SystemClockConfig_def Config_stages_def HAL_RCC_OscConfig_def
      HAL_RCC_ClockConfig_def HAL_RCCEx_PeriphCLKConfig_def run_stages_Nil run_stages_Cons)

lemma reached_run_stages: "run_stages fs st = Some st' \<Longrightarrow> reached fs st = st'"
  by (induction fs arbitrary: st) (auto simp: bind_eq_Some_conv)

lemma ready_before_prefix:
  "prefix xs ys \<Longrightarrow> ready_before fl step seen ys \<Longrightarrow> ready_before fl step seen xs"
  by (auto simp: prefix_def ready_before_append)

lemma assert_param_FAIL:
  "assert_param cfg FAIL st = (if USE_FULL_ASSERT cfg then None else Some st)"
  by (simp add: assert_param_def FAIL_def assert_failed_None)

lemma reached_ReConfig_prefix:
  "\<exists>n1 n2 n3 vs. prefix (new_events st (reached (ReConfig_stages env) st))
                    (ReConfig_events n1 n2 n3 vs)"
proof -
  let ?s0 = "advance 0 [Reg RCC_PWR_CLK_ENABLE, Reg PWR_VOLTAGESCALING_CONFIG_SCALE1] st"
  show ?thesis
  proof (cases "spin_while (hw_flag_at env PWR_FLAG_VOS) (Read_flag PWR_FLAG_VOS)
                  (\<lambda>v. v \<noteq> False) ?s0")
    case None
    then have "new_events st (reached (ReConfig_stages env) st) =
        [Reg RCC_PWR_CLK_ENABLE, Reg PWR_VOLTAGESCALING_CONFIG_SCALE1]"
      by (simp add: ReConfig_stages_def emits_advance new_events_def)
    then have "prefix (new_events st (reached (ReConfig_stages env) st)) (ReConfig_events 0 0 0 [])"
      by (simp add: ReConfig_events_def)
    then show ?thesis by blast
  next
    case (Some s1)
    from wait_clear_SomeD [OF Some] obtain n1 where
      s1: "s1 = advance (Suc n1) ([Reg RCC_PWR_CLK_ENABLE, Reg PWR_VOLTAGESCALING_CONFIG_SCALE1] @
         replicate n1 (Read_flag PWR_FLAG_VOS True) @ [Read_flag PWR_FLAG_VOS False]) st"
      by (auto simp: advance_advance)
    let ?s1 = "advance 0 [Reg RCC_HSE_CONFIG_ON] s1"
    show ?thesis
    proof (cases "spin_while (hw_flag_at env RCC_FLAG_HSERDY) (Read_flag RCC_FLAG_HSERDY)
                    (\<lambda>v. v = False) ?s1")
      case None
      with Some s1 have "new_events st (reached (ReConfig_stages env) st) =
          [Reg RCC_PWR_CLK_ENABLE, Reg PWR_VOLTAGESCALING_CONFIG_SCALE1] @
          replicate n1 (Read_flag PWR_FLAG_VOS True) @ [Read_flag PWR_FLAG_VOS False] @
          [Reg RCC_HSE_CONFIG_ON]"
        by (simp add: ReConfig_stages_def emits_advance new_events_def)
      then have "prefix (new_events st (reached (ReConfig_stages env) st))
          (ReConfig_events n1 0 0 [])"
        by (simp add: ReConfig_events_def)
      then show ?thesis by blast
    next
      case s2: (Some s2)
      from wait_set_SomeD [OF s2] obtain n2 where
        s2': "s2 = advance (Suc n2) ([Reg RCC_HSE_CONFIG_ON] @
           replicate n2 (Read_flag RCC_FLAG_HSERDY False) @ [Read_flag RCC_FLAG_HSERDY True]) s1"
        by (auto simp: advance_advance)
      let ?s2 = "advance 0 [Reg RCC_PLL_CONFIG_HSE_MUL6_DIV3, Reg RCC_PLL_ENABLE] s2"
      show ?thesis
      proof (cases "spin_while (hw_flag_at env RCC_FLAG_PLLRDY) (Read_flag RCC_FLAG_PLLRDY)
                      (\<lambda>v. v = False) ?s2")
        case None
        with Some s2 s1 s2' have "new_events st (reached (ReConfig_stages env) st) =
            [Reg RCC_PWR_CLK_ENABLE, Reg PWR_VOLTAGESCALING_CONFIG_SCALE1] @
            replicate n1 (Read_flag PWR_FLAG_VOS True) @ [Read_flag PWR_FLAG_VOS False] @
            [Reg RCC_HSE_CONFIG_ON] @
            replicate n2 (Read_flag RCC_FLAG_HSERDY False) @ [Read_flag RCC_FLAG_HSERDY True] @
            [Reg RCC_PLL_CONFIG_HSE_MUL6_DIV3, Reg RCC_PLL_ENABLE]"
          by (simp add: ReConfig_stages_def emits_advance new_events_def)
        then have "prefix (new_events st (reached (ReConfig_stages env) st))
            (ReConfig_events n1 n2 0 [])"
          by (simp add: ReConfig_events_def)
        then show ?thesis by blast
      next
        case s3: (Some s3)
        from wait_set_SomeD [OF s3] obtain n3 where
          s3': "s3 = advance (Suc n3) ([Reg RCC_PLL_CONFIG_HSE_MUL6_DIV3, Reg RCC_PLL_ENABLE] @
             replicate n3 (Read_flag RCC_FLAG_PLLRDY False) @ [Read_flag RCC_FLAG_PLLRDY True]) s2"
          by (auto simp: advance_advance)
        let ?s3 = "advance 0 [Reg RCC_SYSCLK_CONFIG_PLLCLK] s3"
        show ?thesis
        proof (cases "spin_while (sysclk_source_at env) Read_SYSCLK_SOURCE
                        (\<lambda>v. v \<noteq> RCC_SYSCLKSOURCE_STATUS_PLLCLK) ?s3")
          case None
          with Some s2 s3 s1 s2' s3' have "new_events st (reached (ReConfig_stages env) st) =
              [Reg RCC_PWR_CLK_ENABLE, Reg PWR_VOLTAGESCALING_CONFIG_SCALE1] @
              replicate n1 (Read_flag PWR_FLAG_VOS True) @ [Read_flag PWR_FLAG_VOS False] @
              [Reg RCC_HSE_CONFIG_ON] @
              replicate n2 (Read_flag RCC_FLAG_HSERDY False) @ [Read_flag RCC_FLAG_HSERDY True] @
              [Reg RCC_PLL_CONFIG_HSE_MUL6_DIV3, Reg RCC_PLL_ENABLE] @
              replicate n3 (Read_flag RCC_FLAG_PLLRDY False) @ [Read_flag RCC_FLAG_PLLRDY True] @
              [Reg RCC_SYSCLK_CONFIG_PLLCLK]"
            by (simp add: ReConfig_stages_def emits_advance new_events_def)
          then have "prefix (new_events st (reached (ReConfig_stages env) st))
              (ReConfig_events n1 n2 n3 [])"
            by (simp add: ReConfig_events_def)
          then show ?thesis by blast
        next
          case s4: (Some s4)
          with Some s2 s3 have "run_stages (ReConfig_stages env) st = Some s4"
            by (simp add: ReConfig_stages_def emits_advance)
          then have r: "reached (ReConfig_stages env) st = s4"
            and "SystemClockReConfig env st = Some s4"
            by (simp_all add: reached_run_stages SystemClockReConfig_stages)
          from SystemClockReConfig_SomeD [OF this(2)] obtain k m1 m2 m3 vs where
            "s4 = advance k (ReConfig_events m1 m2 m3 vs) st"
            by blast
          with r have "prefix (new_events st (reached (ReConfig_stages env) st))
              (ReConfig_events m1 m2 m3 vs)"
            by (simp add: new_events_def)
          then show ?thesis by blast
        qed
      qed
    qed
  qed
qed

lemma reached_Config_prefix:
  "\<exists>n2 n3. prefix (new_events st (reached (Config_stages cfg env) st)) (Config_events env n2 n3) \<and>
     (SystemClockConfig cfg env st = None \<longrightarrow>
        Hal HAL_NVIC_SetPriority_SysTick \<notin> set (new_events st (reached (Config_stages cfg env) st)))"
proof -
  let ?s0 = "advance 0 [Reg RCC_PWR_CLK_ENABLE, Reg PWR_VOLTAGESCALING_CONFIG_SCALE1,
                        Hal HAL_RCC_OscConfig_called, Reg RCC_HSE_CONFIG_ON,
                        Reg RCC_LSE_CONFIG_ON] st"
  show ?thesis
  proof (cases "spin_while (hw_flag_at env RCC_FLAG_HSERDY) (Read_flag RCC_FLAG_HSERDY)
                  (\<lambda>v. v = False) ?s0")
    case None
    then have "new_events st (reached (Config_stages cfg env) st) =
        [Reg RCC_PWR_CLK_ENABLE, Reg PWR_VOLTAGESCALING_CONFIG_SCALE1,
         Hal HAL_RCC_OscConfig_called, Reg RCC_HSE_CONFIG_ON, Reg RCC_LSE_CONFIG_ON]"
      by (simp add: Config_stages_def emits_advance advance_advance new_events_def)
    then have "prefix (new_events st (reached (Config_stages cfg env) st)) (Config_events env 0 0) \<and>
        (SystemClockConfig cfg env st = None \<longrightarrow>
        Hal HAL_NVIC_SetPriority_SysTick \<notin> set (new_events st (reached (Config_stages cfg env) st)))"
      by (simp add: Config_events_def)
    then show ?thesis by (intro exI)
  next
    case (Some s1)
    from wait_set_SomeD [OF Some] obtain n2 where
      s1: "s1 = advance (Suc n2) ([Reg RCC_PWR_CLK_ENABLE, Reg PWR_VOLTAGESCALING_CONFIG_SCALE1,
             Hal HAL_RCC_OscConfig_called, Reg RCC_HSE_CONFIG_ON, Reg RCC_LSE_CONFIG_ON] @
         replicate n2 (Read_flag RCC_FLAG_HSERDY False) @ [Read_flag RCC_FLAG_HSERDY True]) st"
      by (auto simp: advance_advance)
    let ?s1 = "advance 0 [Reg RCC_PLL_CONFIG_HSE_MUL6_DIV3, Reg RCC_PLL_ENABLE] s1"
    show ?thesis
    proof (cases "spin_while (hw_flag_at env RCC_FLAG_PLLRDY) (Read_flag RCC_FLAG_PLLRDY)
                    (\<lambda>v. v = False) ?s1")
      case None
      with Some s1 have "new_events st (reached (Config_stages cfg env) st) =
          [Reg RCC_PWR_CLK_ENABLE, Reg PWR_VOLTAGESCALING_CONFIG_SCALE1,
           Hal HAL_RCC_OscConfig_called, Reg RCC_HSE_CONFIG_ON, Reg RCC_LSE_CONFIG_ON] @
          replicate n2 (Read_flag RCC_FLAG_HSERDY False) @ [Read_flag RCC_FLAG_HSERDY True] @
          [Reg RCC_PLL_CONFIG_HSE_MUL6_DIV3, Reg RCC_PLL_ENABLE]"
        by (simp add: Config_stages_def emits_advance advance_advance new_events_def)
      then have "prefix (new_events st (reached (Config_stages cfg env) st))
          (Config_events env n2 0) \<and>
        (SystemClockConfig cfg env st = None \<longrightarrow>
        Hal HAL_NVIC_SetPriority_SysTick \<notin> set (new_events st (reached (Config_stages cfg env) st)))"
        by (simp add: Config_events_def)
      then show ?thesis by (intro exI)
    next
      case s2: (Some s2)
      from wait_set_SomeD [OF s2] obtain n3 where
        s2': "s2 = advance (Suc n3) ([Reg RCC_PLL_CONFIG_HSE_MUL6_DIV3, Reg RCC_PLL_ENABLE] @
           replicate n3 (Read_flag RCC_FLAG_PLLRDY False) @ [Read_flag RCC_FLAG_PLLRDY True]) s1"
        by (auto simp: advance_advance)
      from Some s2 s1 s2' have "prefix (new_events st (reached (Config_stages cfg env) st))
          (Config_events env n2 n3)"
        by (simp add: Config_stages_def Config_events_def emits_advance advance_advance
            new_events_def assert_param_FAIL)
      moreover from Some s2 s1 s2' have "SystemClockConfig cfg env st = None \<longrightarrow>
        Hal HAL_NVIC_SetPriority_SysTick \<notin> set (new_events st (reached (Config_stages cfg env) st))"
        by (simp add: SystemClockConfig_stages Config_stages_def emits_advance advance_advance
            new_events_def assert_param_FAIL)
      ultimately show ?thesis by (intro exI conjI)
    qed
  qed
qed

lemma count_list_prefix: "prefix xs ys \<Longrightarrow> count_list xs e \<le> count_list ys e"
  by (auto simp: prefix_def)

lemma ready_before_sysclk: "ready_before fl (Reg r) seen (map Read_SYSCLK_SOURCE vs)"
  by (rule ready_before_absent) auto

lemma ordered_ReConfig_events: "ordered_bring_up (ReConfig_events n1 n2 n3 vs)"
  by (simp add: ordered_bring_up_def ordered_so_far_def ReConfig_events_def ready_before_append
      foldl_observe_replicate foldl_observe_sysclk ready_before_absent ready_before_sysclk)

lemma ordered_Config_events: "ordered_bring_up (Config_events env n2 n3)"
  by (simp add: ordered_bring_up_def ordered_so_far_def Config_events_def ready_before_append
      foldl_observe_replicate ready_before_absent)

lemma ordered_so_far_prefix:
  assumes "prefix xs ys" and "ordered_bring_up ys"
  shows "ordered_so_far xs"
proof -
  from assms(2) have "ready_before RCC_FLAG_HSERDY (Reg RCC_PLL_ENABLE) False ys"
    and "ready_before RCC_FLAG_PLLRDY (Reg RCC_SYSCLK_CONFIG_PLLCLK) False ys"
    by (simp_all add: ordered_bring_up_def ordered_so_far_def)
  then show ?thesis
    unfolding ordered_so_far_def
    by (intro conjI ready_before_prefix [OF assms(1)])
qed

lemma spin_while_never:
  assumes "\<forall>k. busy (rd (tick st + k))"
  shows "spin_while rd ev busy st = None"
proof (cases "spin_while rd ev busy st")
  case None
  then show ?thesis .
next
  case (Some st')
  from spin_while_SomeD [OF Some] assms show ?thesis
    by blast
qed

text \<open>
  C2. In every run of the resume clock sequence and of the cold clock sequence, whether it
  returns or stays in a wait or in the assertion trap, the PLL is enabled only after the
  oscillator-ready flag was last read as set, and the PLL is selected as system clock only
  after the PLL-ready flag was last read as set. In a run that returns both steps are
  executed.
\<close>

theorem ready_observed_before_dependent_step:
  "SystemClockReConfig env st = run_stages (ReConfig_stages env) st \<and>
   SystemClockConfig cfg env st = run_stages (Config_stages cfg env) st \<and>
   ordered_so_far (new_events st (reached (ReConfig_stages env) st)) \<and>
   ordered_so_far (new_events st (reached (Config_stages cfg env) st)) \<and>
   (SystemClockReConfig env st = Some st' \<longrightarrow>
      reached (ReConfig_stages env) st = st' \<and> ordered_bring_up (new_events st st')) \<and>
   (SystemClockConfig cfg env st = Some st'' \<longrightarrow>
      reached (Config_stages cfg env) st = st'' \<and> ordered_bring_up (new_events st st''))"
proof (intro conjI impI)
  show "SystemClockReConfig env st = run_stages (ReConfig_stages env) st"
    by (rule SystemClockReConfig_stages)
  show "SystemClockConfig cfg env st = run_stages (Config_stages cfg env) st"
    by (rule SystemClockConfig_stages)
  from reached_ReConfig_prefix [of st env] obtain n1 n2 n3 vs where
    "prefix (new_events st (reached (ReConfig_stages env) st)) (ReConfig_events n1 n2 n3 vs)"
    by blast
  then show "ordered_so_far (new_events st (reached (ReConfig_stages env) st))"
    using ordered_ReConfig_events by (rule ordered_so_far_prefix)
  from reached_Config_prefix [of st cfg env] obtain n2 n3 where
    "prefix (new_events st (reached (Config_stages cfg env) st)) (Config_events env n2 n3)"
    by (elim exE conjE)
  then show "ordered_so_far (new_events st (reached (Config_stages cfg env) st))"
    using ordered_Config_events by (rule ordered_so_far_prefix)
next
  assume r: "SystemClockReConfig env st = Some st'"
  then show "reached (ReConfig_stages env) st = st'"
    by (simp add: SystemClockReConfig_stages reached_run_stages)
  from SystemClockReConfig_SomeD [OF r] obtain k n1 n2 n3 vs where
    "st' = advance k (ReConfig_events n1 n2 n3 vs) st"
    by blast
  then show "ordered_bring_up (new_events st st')"
    by (simp add: new_events_def ordered_ReConfig_events)
next
  assume r: "SystemClockConfig cfg env st = Some st''"
  then show "reached (Config_stages cfg env) st = st''"
    by (simp add: SystemClockConfig_stages reached_run_stages)
  from SystemClockConfig_SomeD [OF r] obtain k n2 n3 where
    "st'' = advance k (Config_events env n2 n3) st"
    by blast
  then show "ordered_bring_up (new_events st st'')"
    by (simp add: new_events_def ordered_Config_events)
qed

lemma SystemClockReConfig_power_on:
  "SystemClockReConfig hw_ok power_on =
     Some (advance 9 (ReConfig_events 1 1 1 [RCC_SYSCLKSOURCE_STATUS_MSI, RCC_SYSCLKSOURCE_STATUS_MSI]) power_on)"
  by (simp add: SystemClockReConfig_def hw_ok_def power_on_def emits_def spin_while.simps
      advance_def ReConfig_events_def)

lemma PLL_wait_never_returns:
  "spin_while (hw_flag_at hw_PLL_dead RCC_FLAG_PLLRDY) (Read_flag RCC_FLAG_PLLRDY) Not s = None"
  by (rule spin_while_never) (simp add: hw_PLL_dead_def)

lemma VOS_wait_PLL_dead:
  "spin_while (hw_flag_at hw_PLL_dead PWR_FLAG_VOS) (Read_flag PWR_FLAG_VOS) (\<lambda>v. v) s =
     Some (advance 1 [Read_flag PWR_FLAG_VOS False] s)"
  by (subst spin_while.simps) (simp add: hw_PLL_dead_def advance_def)

lemma HSE_wait_PLL_dead:
  "spin_while (hw_flag_at hw_PLL_dead RCC_FLAG_HSERDY) (Read_flag RCC_FLAG_HSERDY) Not s =
     Some (advance 1 [Read_flag RCC_FLAG_HSERDY True] s)"
  by (subst spin_while.simps) (simp add: hw_PLL_dead_def advance_def)

lemma reached_PLL_dead:
  "new_events power_on (reached (ReConfig_stages hw_PLL_dead) power_on) =
     [Reg RCC_PWR_CLK_ENABLE, Reg PWR_VOLTAGESCALING_CONFIG_SCALE1,
      Read_flag PWR_FLAG_VOS False,
      Reg RCC_HSE_CONFIG_ON,
      Read_flag RCC_FLAG_HSERDY True,
      Reg RCC_PLL_CONFIG_HSE_MUL6_DIV3, Reg RCC_PLL_ENABLE]"
  by (simp add: ReConfig_stages_def VOS_wait_PLL_dead HSE_wait_PLL_dead PLL_wait_never_returns
      emits_advance advance_advance new_events_def)

theorem ready_observed_before_dependent_step_witness:
  "map_option (\<lambda>s. ordered_bring_up (new_events power_on s))
     (SystemClockReConfig hw_ok power_on) = Some True \<and>
   map_option (\<lambda>s. ordered_bring_up (new_events power_on s))
     (SystemClockConfig release_build hw_ok power_on) = Some True \<and>
   SystemClockReConfig hw_PLL_dead power_on = None \<and>
   ordered_so_far
     [Reg RCC_PWR_CLK_ENABLE, Reg PWR_VOLTAGESCALING_CONFIG_SCALE1,
      Read_flag PWR_FLAG_VOS False,
      Reg RCC_HSE_CONFIG_ON,
      Read_flag RCC_FLAG_HSERDY True,
      Reg RCC_PLL_CONFIG_HSE_MUL6_DIV3, Reg RCC_PLL_ENABLE]"
proof -
  obtain s1 where s1: "SystemClockReConfig hw_ok power_on = Some s1"
    using SystemClockReConfig_returns [OF eventually_ready_hw_ok] by blast
  obtain s2 where s2: "SystemClockConfig release_build hw_ok power_on = Some s2"
    using SystemClockConfig_returns [OF eventually_ready_hw_ok, of release_build]
    by (auto simp: release_build_def)
  have dead: "SystemClockReConfig hw_PLL_dead power_on = None"
    by (simp add: SystemClockReConfig_def PLL_wait_never_returns)
  from s1 s2 dead
    ready_observed_before_dependent_step [of hw_ok power_on release_build s1 s2]
    ready_observed_before_dependent_step [of hw_PLL_dead power_on release_build]
  show ?thesis
    by (simp add: reached_PLL_dead)
qed

text \<open>
  C7, as the code has it. In a build with \<open>USE_FULL_ASSERT\<close>, a cold clock sequence in which
  one of the three configuration calls reports a status other than \<open>HAL_OK\<close> never returns:
  it is abandoned before its last step, and none of the three calls is made a second time.
\<close>

theorem cold_clock_failure_traps:
  assumes "USE_FULL_ASSERT cfg"
    and "OscConfig_status env \<noteq> HAL_OK \<or> ClockConfig_status env \<noteq> HAL_OK \<or>
         PeriphCLKConfig_status env \<noteq> HAL_OK"
  shows "SystemClockConfig cfg env st = None \<and>
         Hal HAL_NVIC_SetPriority_SysTick \<notin>
           set (new_events st (reached (Config_stages cfg env) st)) \<and>
         count_list (new_events st (reached (Config_stages cfg env) st))
           (Hal HAL_RCC_OscConfig_called) \<le> 1 \<and>
         count_list (new_events st (reached (Config_stages cfg env) st))
           (Hal HAL_RCC_ClockConfig_called) \<le> 1 \<and>
         count_list (new_events st (reached (Config_stages cfg env) st))
           (Hal HAL_RCCEx_PeriphCLKConfig_called) \<le> 1"
proof -
  have trap: "SystemClockConfig cfg env st = None"
  proof (cases "SystemClockConfig cfg env st")
    case None
    then show ?thesis .
  next
    case (Some st')
    from SystemClockConfig_SomeD [OF this] assms show ?thesis
      by blast
  qed
  from reached_Config_prefix [of st cfg env] obtain n2 n3 where
    p: "prefix (new_events st (reached (Config_stages cfg env) st)) (Config_events env n2 n3)"
    and e: "SystemClockConfig cfg env st = None \<longrightarrow>
        Hal HAL_NVIC_SetPriority_SysTick \<notin> set (new_events st (reached (Config_stages cfg env) st))"
    by (elim exE conjE)
  have "count_list (Config_events env n2 n3) (Hal HAL_RCC_OscConfig_called) = 1"
    "count_list (Config_events env n2 n3) (Hal HAL_RCC_ClockConfig_called) = 1"
    "count_list (Config_events env n2 n3) (Hal HAL_RCCEx_PeriphCLKConfig_called) = 1"
    by (simp_all add: Config_events_def count_list_replicate_eq)
  with count_list_prefix [OF p] trap e show ?thesis
    by metis
qed

theorem cold_clock_failure_traps_witness:
  "USE_FULL_ASSERT assert_build \<and> ClockConfig_status hw_ClockConfig_error = HAL_ERROR \<and>
   SystemClockConfig assert_build hw_ClockConfig_error power_on = None \<and>
   Hal HAL_NVIC_SetPriority_SysTick \<notin>
     set (new_events power_on (reached (Config_stages assert_build hw_ClockConfig_error) power_on))"
proof -
  have "USE_FULL_ASSERT assert_build"
    by (simp add: assert_build_def)
  moreover have "ClockConfig_status hw_ClockConfig_error = HAL_ERROR"
    by (simp add: hw_ClockConfig_error_def)
  ultimately show ?thesis
    using cold_clock_failure_traps [of assert_build hw_ClockConfig_error power_on] by simp
qed

text \<open>
  Without \<open>USE_FULL_ASSERT\<close> the same failure is ignored: the sequence goes on to the
  remaining configuration calls and returns.
\<close>

theorem cold_clock_failure_ignored_counterexample:
  "USE_FULL_ASSERT release_build = False \<and>
   ClockConfig_status hw_ClockConfig_error = HAL_ERROR \<and>
   SystemClockConfig release_build hw_ClockConfig_error power_on =
     Some (advance 4 (Config_events hw_ClockConfig_error 1 1) power_on)"
  by (simp add: SystemClockConfig_def HAL_RCC_OscConfig_def HAL_RCC_ClockConfig_def
      HAL_RCCEx_PeriphCLKConfig_def assert_param_def release_build_def
      hw_ClockConfig_error_def hw_ok_def power_on_def emits_def spin_while.simps
      advance_def Config_events_def)

subsection \<open>Board initialisation\<close>

lemma advance_0_Nil [simp]: "advance 0 [] st = st"
  by (simp add: advance_def)

lemma if_emits: "(if c then emits es st else st) = advance 0 (if c then es else []) st"
  by (simp add: emits_advance)

lemma advance_McuInitialized_update:
  "advance k es (st\<lparr>McuInitialized := b\<rparr>) = (advance k es st)\<lparr>McuInitialized := b\<rparr>"
  by (simp add: advance_def)

lemma advance_Calibrated_update:
  "advance k es (st\<lparr>SystemWakeupTimeCalibrated := b\<rparr>) =
   (advance k es st)\<lparr>SystemWakeupTimeCalibrated := b\<rparr>"
  by (simp add: advance_def)

lemma BoardUnusedIoInit_advance: "BoardUnusedIoInit cfg st = advance 0 (unused_io_events cfg) st"
  by (simp add: BoardUnusedIoInit_def GetBoardPowerSource_def unused_io_events_def
      emits_advance advance_advance)

lemma CalibrateSystemWakeupTime_advance:
  assumes "\<not> SystemWakeupTimeCalibrated st" and "CalibrateSystemWakeupTime env st = Some st'"
  shows "\<exists>n. st' = (advance (Suc n)
            [Timer TimerInit, Timer (TimerSetValue 1000), Timer TimerStart,
             Timer RtcSetMcuWakeUpTime] st)\<lparr>SystemWakeupTimeCalibrated := True\<rparr>"
proof -
  from CalibrateSystemWakeupTime_SomeD [OF assms] obtain n where
    "st' = st\<lparr>SystemWakeupTimeCalibrated := True, tick := tick st + Suc n,
            trace := trace st @ [Timer TimerInit, Timer (TimerSetValue 1000), Timer TimerStart,
                                 Timer RtcSetMcuWakeUpTime]\<rparr>"
    by blast
  then show ?thesis
    by (intro exI [where x = n]) (simp add: advance_def)
qed

lemma BoardInitMcu_resume:
  assumes "McuInitialized st"
  shows "BoardInitMcu cfg env st = resume_path cfg env st"
proof (cases "SystemClockReConfig env st")
  case None
  with assms show ?thesis
    by (simp add: BoardInitMcu_def resume_path_def)
next
  case (Some s1)
  from SystemClockReConfig_SomeD [OF Some] assms have "McuInitialized s1"
    by auto
  with Some assms show ?thesis
    by (simp add: BoardInitMcu_def resume_path_def emits_def)
qed

lemma resume_path_SomeD:
  assumes "resume_path cfg env st = Some st'"
  shows "\<exists>k n1 n2 n3 vs. st' = advance k (resume_events cfg n1 n2 n3 vs) st"
proof -
  from assms obtain s1 where s1: "SystemClockReConfig env st = Some s1"
    and st': "st' = advance 0 (rebuild_events cfg @ [Driver WdtInit]) s1"
    by (auto simp: resume_path_def rebuild_events_def emits_advance bind_eq_Some_conv)
  from SystemClockReConfig_SomeD [OF s1] obtain k n1 n2 n3 vs where
    "s1 = advance k (ReConfig_events n1 n2 n3 vs) st"
    by blast
  with st' have "st' = advance k (resume_events cfg n1 n2 n3 vs) st"
    by (simp add: advance_advance resume_events_def)
  then show ?thesis
    by blast
qed

lemma BoardInitMcu_cold_SomeD:
  assumes "\<not> McuInitialized st" and "\<not> SystemWakeupTimeCalibrated st"
    and "BoardInitMcu cfg env st = Some st'"
  shows "\<exists>k n2 n3. st' = (advance k (cold_boot_events cfg env n2 n3) st)
           \<lparr>McuInitialized := True, SystemWakeupTimeCalibrated := True\<rparr>"
proof -
  let ?pre = "[Hal HAL_Init] @
     (if USE_POTENTIOMETER cfg = 0
      then [Driver (GpioInit Led1 LED_1 PIN_OUTPUT PIN_PUSH_PULL PIN_NO_PULL 1)] else [])"
  let ?mid = "[Driver (FifoInit Uart1_FifoTx 1024),
      Driver (FifoInit Uart1_FifoRx 1024),
      Driver UartInit,
      Driver (UartConfig 115200),
      Driver RtcInit] @
     (if USE_POTENTIOMETER cfg = 0 then [Driver (GpioWrite Led1 0)] else []) @
     [Driver (GpioInit Led1 LED_1 PIN_OUTPUT PIN_PUSH_PULL PIN_NO_PULL 1),
      Driver (GpioInit Led2 LED_2 PIN_OUTPUT PIN_PUSH_PULL PIN_NO_PULL 1),
      Driver (GpioInit Led3 LED_3 PIN_OUTPUT PIN_PUSH_PULL PIN_NO_PULL 1),
      Driver (GpioInit Led4 LED_4 PIN_OUTPUT PIN_PUSH_PULL PIN_NO_PULL 1)] @
     unused_io_events cfg @
     [Driver LpmSetOffMode_LPM_APPLI_ID_LPM_DISABLE] @
     rebuild_events cfg @
     [Radio SX1272IoDbgInit, Radio SX1272IoTcxoInit]"
  from assms(3) obtain s0 s1 s2 where
    s0: "SystemClockConfig cfg env (advance 0 ?pre st) = Some s0"
    and s1: "BoardInitMcu_cold cfg env st = Some s1"
    and s1': "s1 = advance 0 ([Driver (FifoInit Uart1_FifoTx 1024),
      Driver (FifoInit Uart1_FifoRx 1024),
      Driver UartInit,
      Driver (UartConfig 115200),
      Driver RtcInit] @
     (if USE_POTENTIOMETER cfg = 0 then [Driver (GpioWrite Led1 0)] else []) @
     [Driver (GpioInit Led1 LED_1 PIN_OUTPUT PIN_PUSH_PULL PIN_NO_PULL 1),
      Driver (GpioInit Led2 LED_2 PIN_OUTPUT PIN_PUSH_PULL PIN_NO_PULL 1),
      Driver (GpioInit Led3 LED_3 PIN_OUTPUT PIN_PUSH_PULL PIN_NO_PULL 1),
      Driver (GpioInit Led4 LED_4 PIN_OUTPUT PIN_PUSH_PULL PIN_NO_PULL 1)] @
     unused_io_events cfg @
     [Driver LpmSetOffMode_LPM_APPLI_ID_LPM_DISABLE]) s0"
    using assms(1)
    by (auto simp: BoardInitMcu_def BoardInitMcu_cold_def BoardUnusedIoInit_advance
        GetBoardPowerSource_def emits_advance advance_advance if_emits bind_eq_Some_conv)
  from SystemClockConfig_SomeD [OF s0] obtain k0 n2 n3 where
    s0': "s0 = advance k0 (?pre @ Config_events env n2 n3) st"
    by (auto simp: advance_advance)
  with s1' assms(1,2) have s1_flags: "\<not> McuInitialized s1" "\<not> SystemWakeupTimeCalibrated s1"
    by simp_all
  let ?s2 = "(advance 0 (rebuild_events cfg @ [Radio SX1272IoDbgInit, Radio SX1272IoTcxoInit]) s1)
      \<lparr>McuInitialized := True\<rparr>"
  from assms(1,3) s1 s1_flags obtain s3 where
    s3: "CalibrateSystemWakeupTime env ?s2 = Some s3"
    and st': "st' = advance 0 [Driver WdtInit] s3"
    by (auto simp: BoardInitMcu_def GetBoardPowerSource_def rebuild_events_def
        emits_advance advance_advance if_emits advance_McuInitialized_update bind_eq_Some_conv)
  from s1_flags(2) have "\<not> SystemWakeupTimeCalibrated ?s2"
    by simp
  from CalibrateSystemWakeupTime_advance [OF this s3] obtain n where
    "s3 = (advance (Suc n)
            [Timer TimerInit, Timer (TimerSetValue 1000), Timer TimerStart,
             Timer RtcSetMcuWakeUpTime] ?s2)\<lparr>SystemWakeupTimeCalibrated := True\<rparr>"
    by blast
  with st' s1' s0' have "st' = (advance (k0 + Suc n) (cold_boot_events cfg env n2 n3) st)
           \<lparr>McuInitialized := True, SystemWakeupTimeCalibrated := True\<rparr>"
    by (simp add: advance_advance advance_McuInitialized_update advance_Calibrated_update
        cold_boot_events_def)
  then show ?thesis
    by blast
qed

lemma wait_calibrated_eventually:
  assumes "\<not> PRIMASK st" and "\<exists>k. timer_irq_at env (tick st + k)"
  shows "\<exists>st'. wait_calibrated env st = Some st'"
proof (cases "SystemWakeupTimeCalibrated st")
  case True
  then show ?thesis
    by (simp add: wait_calibrated_done)
next
  case False
  define n where "n = (LEAST k. timer_irq_at env (tick st + k))"
  from assms(2) have "timer_irq_at env (tick st + n)"
    unfolding n_def by (rule LeastI_ex)
  moreover have "\<forall>i<n. \<not> timer_irq_at env (tick st + i)"
    unfolding n_def using not_less_Least by blast
  ultimately show ?thesis
    using wait_calibrated_returns [OF False assms(1), of n env] by blast
qed

lemma BoardInitMcu_resume_returns:
  assumes "McuInitialized st" and "eventually_ready env"
  shows "\<exists>st'. BoardInitMcu cfg env st = Some st'"
proof -
  from SystemClockReConfig_returns [OF assms(2)] obtain s1 where
    "SystemClockReConfig env st = Some s1"
    by blast
  with assms(1) show ?thesis
    by (simp add: BoardInitMcu_resume resume_path_def)
qed

lemma BoardInitMcu_cold_returns:
  assumes "\<not> McuInitialized st" and "\<not> PRIMASK st"
    and "eventually_ready env"
    and "USE_FULL_ASSERT cfg \<longrightarrow>
           OscConfig_status env = HAL_OK \<and> ClockConfig_status env = HAL_OK \<and>
           PeriphCLKConfig_status env = HAL_OK"
    and "\<forall>t. \<exists>k. timer_irq_at env (t + k)"
  shows "\<exists>st'. BoardInitMcu cfg env st = Some st'"
proof -
  let ?pre = "[Hal HAL_Init] @
     (if USE_POTENTIOMETER cfg = 0
      then [Driver (GpioInit Led1 LED_1 PIN_OUTPUT PIN_PUSH_PULL PIN_NO_PULL 1)] else [])"
  from SystemClockConfig_returns [OF assms(3,4)] obtain s0 where
    s0: "SystemClockConfig cfg env (advance 0 ?pre st) = Some s0"
    by blast
  from SystemClockConfig_SomeD [OF s0] assms(1,2) have f0: "\<not> McuInitialized s0" "\<not> PRIMASK s0"
    by auto
  from s0 obtain s1 where s1: "BoardInitMcu_cold cfg env st = Some s1"
    and f1: "McuInitialized s1 = McuInitialized s0" "PRIMASK s1 = PRIMASK s0"
    by (auto simp: BoardInitMcu_cold_def BoardUnusedIoInit_advance
        GetBoardPowerSource_def emits_advance advance_advance if_emits)
  let ?s2 = "(advance 0 (rebuild_events cfg @ [Radio SX1272IoDbgInit, Radio SX1272IoTcxoInit]) s1)
      \<lparr>McuInitialized := True\<rparr>"
  let ?s3 = "emits [Timer TimerInit, Timer (TimerSetValue 1000), Timer TimerStart] ?s2"
  from f0 f1 have "\<not> PRIMASK ?s3"
    by (simp add: emits_def)
  moreover from assms(5) have "\<exists>k. timer_irq_at env (tick ?s3 + k)"
    by blast
  ultimately obtain s4 where "wait_calibrated env ?s3 = Some s4"
    using wait_calibrated_eventually by blast
  then obtain s5 where "CalibrateSystemWakeupTime env ?s2 = Some s5"
    by (cases "SystemWakeupTimeCalibrated ?s2") (simp_all add: CalibrateSystemWakeupTime_def)
  with s1 f0 f1 assms(1) show ?thesis
    by (simp add: BoardInitMcu_def GetBoardPowerSource_def rebuild_events_def
        emits_advance advance_advance if_emits advance_McuInitialized_update)
qed

lemma BoardInitMcu_cold_extends:
  assumes "BoardInitMcu_cold cfg env st = Some s1"
  shows "\<exists>k es. s1 = advance k es st"
proof -
  from assms obtain s0 es0 es1 where
    s0: "SystemClockConfig cfg env (advance 0 es0 st) = Some s0"
    and s1: "s1 = advance 0 es1 s0"
    by (auto simp: BoardInitMcu_cold_def BoardUnusedIoInit_advance
        GetBoardPowerSource_def emits_advance advance_advance if_emits bind_eq_Some_conv)
  from SystemClockConfig_SomeD [OF s0] obtain k n2 n3 where
    "s0 = advance k (es0 @ Config_events env n2 n3) st"
    by (auto simp: advance_advance)
  with s1 have "s1 = advance k (es0 @ Config_events env n2 n3 @ es1) st"
    by (simp add: advance_advance)
  then show ?thesis
    by blast
qed

lemma CalibrateSystemWakeupTime_extends:
  assumes "CalibrateSystemWakeupTime env st = Some st'"
  shows "\<exists>es. trace st' = trace st @ es"
proof (cases "SystemWakeupTimeCalibrated st")
  case True
  with assms show ?thesis
    by (simp add: CalibrateSystemWakeupTime_def)
next
  case False
  from CalibrateSystemWakeupTime_advance [OF False assms] show ?thesis
    by auto
qed

text \<open>
  C8. Every call of \<open>BoardInitMcu\<close> that returns, from any state and so on either branch,
  has initialised the converter, the radio's SPI bus and the radio's I/O pins, in this
  order.
\<close>

theorem every_init_rebuilds_adc_and_radio:
  assumes "BoardInitMcu cfg env st = Some st'"
  shows "\<exists>before after. new_events st st' =
           before @
           [Driver (AdcInit POTI),
            Driver (SpiInit RADIO_MOSI RADIO_MISO RADIO_SCLK NC),
            Radio SX1272IoInit] @ after"
proof -
  from assms obtain s1 where
    s1: "(if McuInitialized st = False then BoardInitMcu_cold cfg env st
          else SystemClockReConfig env st) = Some s1"
    by (auto simp: BoardInitMcu_def bind_eq_Some_conv)
  then obtain k before where before: "s1 = advance k before st"
    using BoardInitMcu_cold_extends SystemClockReConfig_SomeD
    by (cases "McuInitialized st") (simp, blast, simp, blast)
  let ?three = "[Driver (AdcInit POTI),
            Driver (SpiInit RADIO_MOSI RADIO_MISO RADIO_SCLK NC),
            Radio SX1272IoInit]"
  have "\<exists>after. trace st' = trace s1 @ ?three @ after"
  proof (cases "McuInitialized s1")
    case True
    with assms s1 have "trace st' = trace s1 @ rebuild_events cfg @ [Driver WdtInit]"
      by (auto simp: BoardInitMcu_def rebuild_events_def emits_advance advance_advance if_emits)
    then show ?thesis
      by (simp add: rebuild_events_def)
  next
    case False
    let ?s2 = "(advance 0 (rebuild_events cfg @ [Radio SX1272IoDbgInit, Radio SX1272IoTcxoInit]) s1)
      \<lparr>McuInitialized := True\<rparr>"
    from assms s1 False obtain s3 where
      s3: "CalibrateSystemWakeupTime env ?s2 = Some s3"
      and st': "st' = advance 0 [Driver WdtInit] s3"
      by (auto simp: BoardInitMcu_def GetBoardPowerSource_def rebuild_events_def
          emits_advance advance_advance if_emits advance_McuInitialized_update bind_eq_Some_conv)
    from CalibrateSystemWakeupTime_extends [OF s3] obtain es where
      "trace s3 = trace ?s2 @ es"
      by blast
    with st' have "trace st' = trace s1 @ rebuild_events cfg @
        [Radio SX1272IoDbgInit, Radio SX1272IoTcxoInit] @ es @ [Driver WdtInit]"
      by simp
    then show ?thesis
      by (simp add: rebuild_events_def)
  qed
  then obtain "after" where "trace st' = trace s1 @ ?three @ after"
    by blast
  with before have "new_events st st' = before @ ?three @ after"
    by (simp add: new_events_def)
  then show ?thesis
    by blast
qed

lemma timer_irq_hw_ok: "\<forall>t. \<exists>k. timer_irq_at hw_ok (t + k)"
proof
  fix t :: nat
  have "timer_irq_at hw_ok (t + 1)"
    by (simp add: hw_ok_def)
  then show "\<exists>k. timer_irq_at hw_ok (t + k)" ..
qed

lemma BoardInitMcu_power_on_returns: "\<exists>s. BoardInitMcu release_build hw_ok power_on = Some s"
  by (rule BoardInitMcu_cold_returns [OF _ _ eventually_ready_hw_ok _ timer_irq_hw_ok])
    (simp_all add: power_on_def release_build_def)

theorem every_init_rebuilds_adc_and_radio_witness:
  "map_option (\<lambda>s. \<exists>before after. new_events power_on s =
        before @ [Driver (AdcInit POTI), Driver (SpiInit RADIO_MOSI RADIO_MISO RADIO_SCLK NC),
                  Radio SX1272IoInit] @ after)
     (BoardInitMcu release_build hw_ok power_on) = Some True \<and>
   map_option (\<lambda>s. \<exists>before after. new_events (power_on\<lparr>McuInitialized := True\<rparr>) s =
        before @ [Driver (AdcInit POTI), Driver (SpiInit RADIO_MOSI RADIO_MISO RADIO_SCLK NC),
                  Radio SX1272IoInit] @ after)
     (BoardInitMcu release_build hw_ok (power_on\<lparr>McuInitialized := True\<rparr>)) = Some True"
proof -
  obtain s1 where s1: "BoardInitMcu release_build hw_ok power_on = Some s1"
    using BoardInitMcu_power_on_returns by blast
  obtain s2 where
    s2: "BoardInitMcu release_build hw_ok (power_on\<lparr>McuInitialized := True\<rparr>) = Some s2"
    using BoardInitMcu_resume_returns [OF _ eventually_ready_hw_ok,
        of "power_on\<lparr>McuInitialized := True\<rparr>" release_build]
    by auto
  from every_init_rebuilds_adc_and_radio [OF s1] every_init_rebuilds_adc_and_radio [OF s2] s1 s2
  show ?thesis by simp
qed

text \<open>
  C10. \<open>GetBoardPowerSource\<close> is the constant \<open>BATTERY_POWER\<close>. Hence every cold boot that
  returns has disabled the off mode, put the USB lines into analog state and run the
  wake-up time calibration to completion; the tests for battery power never fail.
\<close>

theorem battery_power_always:
  "GetBoardPowerSource = BATTERY_POWER \<and>
   GetBoardPowerSource \<noteq> USB_POWER \<and>
   (\<not> McuInitialized st \<and> \<not> SystemWakeupTimeCalibrated st \<and>
    BoardInitMcu cfg env st = Some st' \<longrightarrow>
      set battery_only_events \<subseteq> set (new_events st st') \<and> SystemWakeupTimeCalibrated st')"
proof (intro conjI impI)
  show "GetBoardPowerSource = BATTERY_POWER"
    by (simp add: GetBoardPowerSource_def)
  show "GetBoardPowerSource \<noteq> USB_POWER"
    by (simp add: GetBoardPowerSource_def)
next
  assume a: "\<not> McuInitialized st \<and> \<not> SystemWakeupTimeCalibrated st \<and>
    BoardInitMcu cfg env st = Some st'"
  then obtain k n2 n3 where st': "st' = (advance k (cold_boot_events cfg env n2 n3) st)
           \<lparr>McuInitialized := True, SystemWakeupTimeCalibrated := True\<rparr>"
    using BoardInitMcu_cold_SomeD by blast
  then have "new_events st st' = cold_boot_events cfg env n2 n3"
    by (simp add: new_events_def)
  then show "set battery_only_events \<subseteq> set (new_events st st')"
    by (simp add: battery_only_events_def cold_boot_events_def unused_io_events_def)
  from st' show "SystemWakeupTimeCalibrated st'"
    by simp
qed

theorem battery_power_always_witness:
  "\<not> McuInitialized power_on \<and> \<not> SystemWakeupTimeCalibrated power_on \<and>
   map_option (\<lambda>s. set battery_only_events \<subseteq> set (new_events power_on s) \<and>
                    SystemWakeupTimeCalibrated s)
     (BoardInitMcu release_build hw_ok power_on) = Some True"
proof -
  obtain s1 where s1: "BoardInitMcu release_build hw_ok power_on = Some s1"
    using BoardInitMcu_power_on_returns by blast
  have "\<not> McuInitialized power_on" "\<not> SystemWakeupTimeCalibrated power_on"
    by (simp_all add: power_on_def)
  with s1 battery_power_always [of power_on release_build hw_ok s1] show ?thesis
    by simp
qed

subsection \<open>Leaving stop mode\<close>

lemma clocked_emits: "clocked (\<lambda>st. Some (emits es st))"
  by (auto simp: clocked_def agree_def emits_advance)

lemma clocked_bind:
  assumes "clocked f" and "clocked g"
  shows "clocked (\<lambda>st. f st \<bind> g)"
  unfolding clocked_def
proof (intro allI impI)
  fix a b :: mcu
  assume t: "tick a = tick b"
  with assms(1) have "agree (f a) a (f b) b"
    by (simp add: clocked_def)
  then consider "f a = None" "f b = None"
    | k es where "f a = Some (advance k es a)" "f b = Some (advance k es b)"
    by (auto simp: agree_def)
  then show "agree (f a \<bind> g) a (f b \<bind> g) b"
  proof cases
    case 1
    then show ?thesis by (simp add: agree_def)
  next
    case 2
    from t have "tick (advance k es a) = tick (advance k es b)"
      by simp
    with assms(2) have "agree (g (advance k es a)) (advance k es a) (g (advance k es b)) (advance k es b)"
      by (simp add: clocked_def)
    with 2 show ?thesis
      by (auto simp: agree_def advance_advance)
  qed
qed

lemma clocked_spin_while: "clocked (spin_while rd ev busy)"
  unfolding clocked_def
proof (intro allI impI)
  fix a b :: mcu
  assume t: "tick a = tick b"
  have step: "spin_while rd ev busy y = Some (advance (Suc n)
        (map (\<lambda>i. ev (rd i)) [tick x ..< tick x + n] @ [ev (rd (tick x + n))]) y)"
    if "spin_while rd ev busy x = Some x'" "x' = spun rd ev n x"
      "\<forall>i<n. busy (rd (tick x + i))" "\<not> busy (rd (tick x + n))" "tick x = tick y"
    for x y x' n
    using that spin_while_returns [of n busy rd y ev] by (simp add: spun_split)
  show "agree (spin_while rd ev busy a) a (spin_while rd ev busy b) b"
  proof (cases "spin_while rd ev busy a")
    case (Some a')
    from spin_while_SomeD [OF Some] obtain n where
      n: "\<forall>i<n. busy (rd (tick a + i))" "\<not> busy (rd (tick a + n))" "a' = spun rd ev n a"
      by blast
    from step [OF Some n(3) n(1,2) t] Some n(3) show ?thesis
      by (auto simp: agree_def spun_split)
  next
    case None
    show ?thesis
    proof (cases "spin_while rd ev busy b")
      case None
      with \<open>spin_while rd ev busy a = None\<close> show ?thesis
        by (simp add: agree_def)
    next
      case (Some b')
      from spin_while_SomeD [OF Some] obtain n where
        n: "\<forall>i<n. busy (rd (tick b + i))" "\<not> busy (rd (tick b + n))" "b' = spun rd ev n b"
        by blast
      from step [OF Some n(3) n(1,2) t [symmetric]] None show ?thesis
        by simp
    qed
  qed
qed

lemma clocked_SystemClockReConfig: "clocked (SystemClockReConfig env)"
  unfolding SystemClockReConfig_def
  by (intro clocked_bind clocked_emits clocked_spin_while)

lemma clocked_resume_path: "clocked (resume_path cfg env)"
  unfolding resume_path_def
  by (intro clocked_bind clocked_emits clocked_SystemClockReConfig)

lemma bind_Some_map_option: "(m \<bind> (\<lambda>s. Some (f s))) = map_option f m"
  by (cases m) simp_all

lemma McuInitialized_disable_irq: "McuInitialized (disable_irq st) = McuInitialized st"
  by (simp add: disable_irq_def emits_def)

lemma LpmExitStopMode_delegates:
  "LpmExitStopMode cfg env st =
     map_option (BoardCriticalSectionEnd (get_PRIMASK st)) (BoardInitMcu cfg env (disable_irq st))"
  by (simp add: LpmExitStopMode_def BoardCriticalSectionBegin_def bind_Some_map_option)

lemma LpmExitStopMode_initialized:
  assumes "McuInitialized st"
  shows "LpmExitStopMode cfg env st =
     map_option
       (\<lambda>s. s\<lparr>trace := trace st @ [Reg Cpsid_i] @ new_events st s @
                          [Reg (Msr_primask (get_PRIMASK st))]\<rparr>)
       (BoardInitMcu cfg env st)"
proof -
  from assms have in_cs: "BoardInitMcu cfg env (disable_irq st) = resume_path cfg env (disable_irq st)"
    by (simp add: BoardInitMcu_resume McuInitialized_disable_irq)
  from assms have out_cs: "BoardInitMcu cfg env st = resume_path cfg env st"
    by (simp add: BoardInitMcu_resume)
  have "tick (disable_irq st) = tick st"
    by (simp add: disable_irq_def emits_def)
  with clocked_resume_path [of cfg env]
  have "agree (resume_path cfg env (disable_irq st)) (disable_irq st) (resume_path cfg env st) st"
    by (simp add: clocked_def)
  then consider "resume_path cfg env (disable_irq st) = None" "resume_path cfg env st = None"
    | k es where "resume_path cfg env (disable_irq st) = Some (advance k es (disable_irq st))"
        "resume_path cfg env st = Some (advance k es st)"
    by (auto simp: agree_def)
  then show ?thesis
  proof cases
    case 1
    with in_cs out_cs show ?thesis
      by (simp add: LpmExitStopMode_delegates)
  next
    case 2
    have "BoardCriticalSectionEnd (get_PRIMASK st) (advance k es (disable_irq st)) =
        (advance k es st)\<lparr>trace := trace st @ [Reg Cpsid_i] @ new_events st (advance k es st) @
                          [Reg (Msr_primask (get_PRIMASK st))]\<rparr>"
      by (simp add: BoardCriticalSectionEnd_def set_PRIMASK_def disable_irq_def emits_def
          advance_def new_events_def bit0_get_PRIMASK)
    with 2 in_cs out_cs show ?thesis
      by (simp add: LpmExitStopMode_delegates)
  qed
qed

lemma McuInitialized_LpmEnterStopMode: "McuInitialized (LpmEnterStopMode st) = McuInitialized st"
  by (simp add: LpmEnterStopMode_def BoardCriticalSectionBegin_def BoardCriticalSectionEnd_def
      BoardDeInitMcu_def disable_irq_def set_PRIMASK_def emits_def)

text \<open>
  C9. When the MCU is already initialised, \<open>BoardInitMcu\<close> is the resume path, and
  \<open>LpmExitStopMode\<close> is the resume path run between Begin and End of a critical section:
  it returns exactly when \<open>BoardInitMcu\<close> called in its place would, in the same state but
  for the two interrupt-mask events around the events of the resume path. The lifecycle
  flag stays set, also over a whole cycle of entering and leaving stop mode.
\<close>

theorem exit_stop_is_resume_in_critical_section:
  assumes "McuInitialized st"
  shows "BoardInitMcu cfg env st = resume_path cfg env st \<and>
         LpmExitStopMode cfg env st =
           map_option (BoardCriticalSectionEnd (fst (BoardCriticalSectionBegin st)))
             (resume_path cfg env (snd (BoardCriticalSectionBegin st))) \<and>
         LpmExitStopMode cfg env st =
           map_option
             (\<lambda>s. s\<lparr>trace := trace st @ [Reg Cpsid_i] @ new_events st s @
                                [Reg (Msr_primask (get_PRIMASK st))]\<rparr>)
             (BoardInitMcu cfg env st) \<and>
         (\<forall>s'. LpmExitStopMode cfg env st = Some s' \<longrightarrow> McuInitialized s') \<and>
         (\<forall>s'. LpmExitStopMode cfg env (LpmEnterStopMode st) = Some s' \<longrightarrow> McuInitialized s')"
proof -
  have init: "McuInitialized s'" if "McuInitialized s" "LpmExitStopMode cfg env s = Some s'" for s s'
  proof -
    from that obtain s2 where s2: "resume_path cfg env s = Some s2"
      and s': "s' = s2\<lparr>trace := trace s @ [Reg Cpsid_i] @ new_events s s2 @
                                [Reg (Msr_primask (get_PRIMASK s))]\<rparr>"
      by (auto simp: LpmExitStopMode_initialized BoardInitMcu_resume)
    from resume_path_SomeD [OF s2] that(1) s' show ?thesis
      by auto
  qed
  have a: "BoardInitMcu cfg env st = resume_path cfg env st"
    using assms by (rule BoardInitMcu_resume)
  have b: "LpmExitStopMode cfg env st =
      map_option (BoardCriticalSectionEnd (fst (BoardCriticalSectionBegin st)))
        (resume_path cfg env (snd (BoardCriticalSectionBegin st)))"
    using assms
    by (simp add: LpmExitStopMode_delegates BoardCriticalSectionBegin_def BoardInitMcu_resume
        McuInitialized_disable_irq)
  have c: "LpmExitStopMode cfg env st =
           map_option
             (\<lambda>s. s\<lparr>trace := trace st @ [Reg Cpsid_i] @ new_events st s @
                                [Reg (Msr_primask (get_PRIMASK st))]\<rparr>)
             (BoardInitMcu cfg env st)"
    using assms by (rule LpmExitStopMode_initialized)
  have d: "\<forall>s'. LpmExitStopMode cfg env st = Some s' \<longrightarrow> McuInitialized s'"
    using assms init by blast
  have "McuInitialized (LpmEnterStopMode st)"
    using assms by (simp add: McuInitialized_LpmEnterStopMode)
  then have e: "\<forall>s'. LpmExitStopMode cfg env (LpmEnterStopMode st) = Some s' \<longrightarrow> McuInitialized s'"
    using init by blast
  from a b c d e show ?thesis
    by (intro conjI)
qed

theorem exit_stop_is_resume_in_critical_section_witness:
  "McuInitialized (power_on\<lparr>McuInitialized := True\<rparr>) \<and>
   map_option McuInitialized
     (LpmExitStopMode release_build hw_ok (power_on\<lparr>McuInitialized := True\<rparr>)) = Some True"
proof -
  let ?st = "power_on\<lparr>McuInitialized := True\<rparr>"
  have i: "McuInitialized ?st"
    by simp
  from BoardInitMcu_resume_returns [OF i eventually_ready_hw_ok] obtain s where
    "BoardInitMcu release_build hw_ok ?st = Some s"
    by blast
  then obtain s' where s': "LpmExitStopMode release_build hw_ok ?st = Some s'"
    by (simp add: LpmExitStopMode_initialized [OF i])
  with exit_stop_is_resume_in_critical_section [OF i, of release_build hw_ok]
  have "McuInitialized s'"
    by blast
  with i s' show ?thesis
    by simp
qed

subsection \<open>Single cold boot\<close>

lemma count_list_sysclk_reads:
  "(\<And>s. e \<noteq> Read_SYSCLK_SOURCE s) \<Longrightarrow> count_list (map Read_SYSCLK_SOURCE vs) e = 0"
  by (induction vs) auto

lemma cold_boot_events_parts:
  "cold_boot_events cfg env n2 n3 =
     [Hal HAL_Init] @ led1_early cfg @ Config_events env n2 n3 @
     [Driver (FifoInit Uart1_FifoTx 1024),
      Driver (FifoInit Uart1_FifoRx 1024),
      Driver UartInit,
      Driver (UartConfig 115200),
      Driver RtcInit] @
     led1_off cfg @
     [Driver (GpioInit Led1 LED_1 PIN_OUTPUT PIN_PUSH_PULL PIN_NO_PULL 1),
      Driver (GpioInit Led2 LED_2 PIN_OUTPUT PIN_PUSH_PULL PIN_NO_PULL 1),
      Driver (GpioInit Led3 LED_3 PIN_OUTPUT PIN_PUSH_PULL PIN_NO_PULL 1),
      Driver (GpioInit Led4 LED_4 PIN_OUTPUT PIN_PUSH_PULL PIN_NO_PULL 1)] @
     unused_io_events cfg @
     [Driver LpmSetOffMode_LPM_APPLI_ID_LPM_DISABLE] @
     rebuild_events cfg @
     [Radio SX1272IoDbgInit, Radio SX1272IoTcxoInit,
      Timer TimerInit, Timer (TimerSetValue 1000), Timer TimerStart,
      Timer RtcSetMcuWakeUpTime,
      Driver WdtInit]"
  by (simp add: cold_boot_events_def led1_early_def led1_off_def)

lemma count_led1_early:
  "Driver (GpioInit Led1 LED_1 PIN_OUTPUT PIN_PUSH_PULL PIN_NO_PULL 1) \<noteq> e \<Longrightarrow>
   count_list (led1_early cfg) e = 0"
  by (simp add: led1_early_def)

lemma count_led1_off: "Driver (GpioWrite Led1 0) \<noteq> e \<Longrightarrow> count_list (led1_off cfg) e = 0"
  by (simp add: led1_off_def)

lemma count_rebuild_events:
  assumes "Driver (AdcInit POTI) \<noteq> e"
    and "Driver (SpiInit RADIO_MOSI RADIO_MISO RADIO_SCLK NC) \<noteq> e"
    and "Radio SX1272IoInit \<noteq> e" and "Driver EncoderInit \<noteq> e"
    and "\<And>g. Driver (GpioWrite g 0) \<noteq> e"
  shows "count_list (rebuild_events cfg) e = 0"
  using assms by (simp add: rebuild_events_def)

lemma count_unused_io_events:
  assumes "\<And>c. Hal (HAL_DBGMCU c) \<noteq> e"
    and "\<And>p. p \<noteq> USB_DM \<Longrightarrow> p \<noteq> USB_DP \<Longrightarrow>
       Driver (GpioInit ioPin p PIN_ANALOGIC PIN_PUSH_PULL PIN_NO_PULL 0) \<noteq> e"
  shows "count_list (unused_io_events cfg) e =
     (if Driver (GpioInit ioPin USB_DM PIN_ANALOGIC PIN_PUSH_PULL PIN_NO_PULL 0) = e \<or>
         Driver (GpioInit ioPin USB_DP PIN_ANALOGIC PIN_PUSH_PULL PIN_NO_PULL 0) = e
      then 1 else 0)"
  using assms by (auto simp: unused_io_events_def)

lemma count_Config_events:
  assumes "\<And>r. Reg r \<noteq> e" and "\<And>f v. Read_flag f v \<noteq> e"
    and "\<And>w. Hal (HAL_SYSTICK_Config w) \<noteq> e"
    and "Hal HAL_SYSTICK_CLKSourceConfig_HCLK \<noteq> e" and "Hal HAL_NVIC_SetPriority_SysTick \<noteq> e"
  shows "count_list (Config_events env n2 n3) e =
     (if Hal HAL_RCC_OscConfig_called = e \<or> Hal HAL_RCC_ClockConfig_called = e \<or>
         Hal HAL_RCCEx_PeriphCLKConfig_called = e then 1 else 0)"
  using assms by (auto simp: Config_events_def count_list_replicate_eq)

lemma count_ReConfig_events:
  assumes "\<And>r. Reg r \<noteq> e" and "\<And>f v. Read_flag f v \<noteq> e"
    and "\<And>s. Read_SYSCLK_SOURCE s \<noteq> e"
  shows "count_list (ReConfig_events n1 n2 n3 vs) e = 0"
proof -
  from assms(3) have "\<And>s. e \<noteq> Read_SYSCLK_SOURCE s"
    by blast
  with assms show ?thesis
    by (simp add: ReConfig_events_def count_list_replicate_eq count_list_sysclk_reads)
qed

lemma marks_in_cold_boot_events:
  "e \<in> set cold_boot_marks \<Longrightarrow> count_list (cold_boot_events cfg env n2 n3) e = 1"
  unfolding cold_boot_marks_def set_simps insert_iff empty_iff
  by (elim disjE FalseE)
    (simp_all add: cold_boot_events_parts count_led1_early count_led1_off count_rebuild_events
      count_unused_io_events count_Config_events)

lemma marks_in_resume_events:
  "e \<in> set cold_boot_marks \<Longrightarrow> count_list (resume_events cfg n1 n2 n3 vs) e = 0"
  unfolding cold_boot_marks_def set_simps insert_iff empty_iff
  by (elim disjE FalseE)
    (simp_all add: resume_events_def count_rebuild_events count_ReConfig_events)

lemma WdtInit_in_cold_boot_events:
  "count_list (cold_boot_events cfg env n2 n3) (Driver WdtInit) = 1"
  by (simp add: cold_boot_events_parts count_led1_early count_led1_off count_rebuild_events
      count_unused_io_events count_Config_events)

lemma WdtInit_in_resume_events:
  "count_list (resume_events cfg n1 n2 n3 vs) (Driver WdtInit) = 1"
  by (simp add: resume_events_def count_rebuild_events count_ReConfig_events)

lemma adds_refl: "adds s s 0 0"
  by (simp add: adds_def)

lemma adds_trans:
  assumes "adds s s1 c w" and "adds s1 s2 c' w'"
  shows "adds s s2 (c + c') (w + w')"
proof -
  from assms(1) obtain es where es: "trace s1 = trace s @ es"
    "\<forall>e\<in>set cold_boot_marks. count_list es e = c" "count_list es (Driver WdtInit) = w"
    by (auto simp: adds_def)
  from assms(2) obtain es' where es': "trace s2 = trace s1 @ es'"
    "\<forall>e\<in>set cold_boot_marks. count_list es' e = c'" "count_list es' (Driver WdtInit) = w'"
    by (auto simp: adds_def)
  from es es' have "trace s2 = trace s @ (es @ es')"
    "\<forall>e\<in>set cold_boot_marks. count_list (es @ es') e = c + c'"
    "count_list (es @ es') (Driver WdtInit) = w + w'"
    by simp_all
  then show ?thesis
    unfolding adds_def by blast
qed

lemma adds_new_events:
  assumes "adds s s' c w"
  shows "(\<forall>e\<in>set cold_boot_marks. count_list (new_events s s') e = c) \<and>
         count_list (new_events s s') (Driver WdtInit) = w"
  using assms by (auto simp: adds_def new_events_def)

lemma marks_not_Reg: "e \<in> set cold_boot_marks \<Longrightarrow> Reg r \<noteq> e"
  by (auto simp: cold_boot_marks_def)

lemma marks_Driver:
  "Driver d \<in> set cold_boot_marks \<Longrightarrow>
   d \<notin> {AdcDeInit, SpiDeInit,
         GpioInit ioPin OSC_HSE_IN PIN_ANALOGIC PIN_PUSH_PULL PIN_NO_PULL 1,
         GpioInit ioPin OSC_HSE_OUT PIN_ANALOGIC PIN_PUSH_PULL PIN_NO_PULL 1,
         GpioInit ioPin OSC_LSE_IN PIN_INPUT PIN_PUSH_PULL PIN_PULL_DOWN 1,
         GpioInit ioPin OSC_LSE_OUT PIN_INPUT PIN_PUSH_PULL PIN_PULL_DOWN 1}"
  by (auto simp: cold_boot_marks_def)

lemma adds_BoardDeInitMcu: "adds s (BoardDeInitMcu s) 0 0"
  unfolding adds_def
proof (intro exI conjI ballI)
  show "trace (BoardDeInitMcu s) = trace s @
      [Driver AdcDeInit, Driver SpiDeInit, Radio SX1272IoDeInit,
       Driver (GpioInit ioPin OSC_HSE_IN PIN_ANALOGIC PIN_PUSH_PULL PIN_NO_PULL 1),
       Driver (GpioInit ioPin OSC_HSE_OUT PIN_ANALOGIC PIN_PUSH_PULL PIN_NO_PULL 1),
       Driver (GpioInit ioPin OSC_LSE_IN PIN_INPUT PIN_PUSH_PULL PIN_PULL_DOWN 1),
       Driver (GpioInit ioPin OSC_LSE_OUT PIN_INPUT PIN_PUSH_PULL PIN_PULL_DOWN 1)]"
    by (simp add: BoardDeInitMcu_def emits_def)
qed (auto simp: cold_boot_marks_def)

lemma adds_LpmEnterStopMode: "adds s (LpmEnterStopMode s) 0 0"
  unfolding adds_def
  by (intro exI conjI ballI, rule LpmEnterStopMode_trace) (auto simp: cold_boot_marks_def)

lemma adds_LpmEnterSleepMode: "adds s (LpmEnterSleepMode s) 0 0"
  unfolding adds_def
proof (intro exI conjI ballI)
  show "trace (LpmEnterSleepMode s) = trace s @ [Hal HAL_PWR_EnterSLEEPMode_MAINREGULATOR_ON_WFI]"
    by (simp add: LpmEnterSleepMode_def emits_def)
qed (auto simp: cold_boot_marks_def)

lemma BoardInitMcu_initialized:
  assumes "McuInitialized s" and "BoardInitMcu cfg env s = Some s'"
  shows "McuInitialized s' \<and> adds s s' 0 1"
proof -
  from assms have "resume_path cfg env s = Some s'"
    by (simp add: BoardInitMcu_resume)
  from resume_path_SomeD [OF this] obtain k n1 n2 n3 vs where
    s': "s' = advance k (resume_events cfg n1 n2 n3 vs) s"
    by blast
  then have "adds s s' 0 1"
    unfolding adds_def
    by (intro exI [where x = "resume_events cfg n1 n2 n3 vs"])
      (simp add: marks_in_resume_events WdtInit_in_resume_events)
  with s' assms(1) show ?thesis
    by simp
qed

lemma BoardInitMcu_uninitialized:
  assumes "\<not> McuInitialized s" and "\<not> SystemWakeupTimeCalibrated s"
    and "BoardInitMcu cfg env s = Some s'"
  shows "McuInitialized s' \<and> adds s s' 1 1"
proof -
  from BoardInitMcu_cold_SomeD [OF assms] obtain k n2 n3 where
    s': "s' = (advance k (cold_boot_events cfg env n2 n3) s)
           \<lparr>McuInitialized := True, SystemWakeupTimeCalibrated := True\<rparr>"
    by blast
  then have "adds s s' 1 1"
    unfolding adds_def
    by (intro exI [where x = "cold_boot_events cfg env n2 n3"])
      (simp add: marks_in_cold_boot_events WdtInit_in_cold_boot_events)
  with s' show ?thesis
    by simp
qed

lemma adds_critical_section:
  assumes "adds (disable_irq s) s2 c w"
  shows "adds s (BoardCriticalSectionEnd m s2) c w"
proof -
  from assms obtain es where es: "trace s2 = trace s @ [Reg Cpsid_i] @ es"
    "\<forall>e\<in>set cold_boot_marks. count_list es e = c" "count_list es (Driver WdtInit) = w"
    by (auto simp: adds_def disable_irq_def emits_def)
  have "trace (BoardCriticalSectionEnd m s2) = trace s @ ([Reg Cpsid_i] @ es @ [Reg (Msr_primask m)])"
    using es(1) by (simp add: BoardCriticalSectionEnd_def set_PRIMASK_def emits_def)
  moreover have "\<forall>e\<in>set cold_boot_marks.
      count_list ([Reg Cpsid_i] @ es @ [Reg (Msr_primask m)]) e = c"
    using es(2) by (auto dest: marks_not_Reg)
  moreover have "count_list ([Reg Cpsid_i] @ es @ [Reg (Msr_primask m)]) (Driver WdtInit) = w"
    using es(3) by simp
  ultimately show ?thesis
    unfolding adds_def by blast
qed

lemma McuInitialized_BoardCriticalSectionEnd:
  "McuInitialized (BoardCriticalSectionEnd m s) = McuInitialized s"
  by (simp add: BoardCriticalSectionEnd_def set_PRIMASK_def emits_def)

lemma McuInitialized_CalibrateSystemWakeupTime:
  assumes "CalibrateSystemWakeupTime env s = Some s'"
  shows "McuInitialized s' = McuInitialized s"
proof (cases "SystemWakeupTimeCalibrated s")
  case True
  with assms show ?thesis
    by (simp add: CalibrateSystemWakeupTime_def)
next
  case False
  from CalibrateSystemWakeupTime_advance [OF False assms] show ?thesis
    by auto
qed

lemma BoardInitMcu_sets_flag:
  assumes "BoardInitMcu cfg env s = Some s'"
  shows "McuInitialized s'"
proof -
  from assms obtain s1 where
    s1: "(if McuInitialized s = False then BoardInitMcu_cold cfg env s
          else SystemClockReConfig env s) = Some s1"
    by (auto simp: BoardInitMcu_def bind_eq_Some_conv)
  show ?thesis
  proof (cases "McuInitialized s1")
    case True
    with assms s1 show ?thesis
      by (auto simp: BoardInitMcu_def emits_advance advance_advance if_emits)
  next
    case False
    let ?s2 = "(advance 0 (rebuild_events cfg @ [Radio SX1272IoDbgInit, Radio SX1272IoTcxoInit]) s1)
      \<lparr>McuInitialized := True\<rparr>"
    from assms s1 False obtain s3 where
      s3: "CalibrateSystemWakeupTime env ?s2 = Some s3"
      and s': "s' = advance 0 [Driver WdtInit] s3"
      by (auto simp: BoardInitMcu_def GetBoardPowerSource_def rebuild_events_def
          emits_advance advance_advance if_emits advance_McuInitialized_update bind_eq_Some_conv)
    from McuInitialized_CalibrateSystemWakeupTime [OF s3] s' show ?thesis
      by simp
  qed
qed

lemma LpmExitStopMode_step:
  assumes "LpmExitStopMode cfg env s = Some s'"
  shows "McuInitialized s' \<and> (McuInitialized s \<longrightarrow> adds s s' 0 1) \<and>
         (\<not> McuInitialized s \<and> \<not> SystemWakeupTimeCalibrated s \<longrightarrow> adds s s' 1 1)"
proof -
  from assms obtain s2 where s2: "BoardInitMcu cfg env (disable_irq s) = Some s2"
    and s': "s' = BoardCriticalSectionEnd (get_PRIMASK s) s2"
    by (auto simp: LpmExitStopMode_delegates)
  have flags: "McuInitialized (disable_irq s) = McuInitialized s"
    "SystemWakeupTimeCalibrated (disable_irq s) = SystemWakeupTimeCalibrated s"
    by (simp_all add: disable_irq_def emits_def)
  from BoardInitMcu_sets_flag [OF s2] s' have "McuInitialized s'"
    by (simp add: McuInitialized_BoardCriticalSectionEnd)
  moreover have "adds s s' 0 1" if "McuInitialized s"
    using BoardInitMcu_initialized [OF _ s2] flags s' that
    by (simp add: adds_critical_section)
  moreover have "adds s s' 1 1" if "\<not> McuInitialized s" "\<not> SystemWakeupTimeCalibrated s"
    using BoardInitMcu_uninitialized [OF _ _ s2] flags s' that
    by (simp add: adds_critical_section)
  ultimately show ?thesis
    by blast
qed

lemma exec_op_initialized:
  assumes "McuInitialized s" and "exec_op cfg env c s = Some s'"
  shows "McuInitialized s' \<and> adds s s' 0 (if runs_BoardInitMcu c then 1 else 0)"
proof (cases c)
  case Call_BoardInitMcu
  with assms BoardInitMcu_initialized show ?thesis by simp
next
  case Call_BoardDeInitMcu
  with assms adds_BoardDeInitMcu [of s] show ?thesis
    by (auto simp: BoardDeInitMcu_def emits_def)
next
  case Call_LpmEnterStopMode
  with assms adds_LpmEnterStopMode [of s] show ?thesis
    by (auto simp: McuInitialized_LpmEnterStopMode)
next
  case Call_LpmExitStopMode
  with assms LpmExitStopMode_step [of cfg env s s'] show ?thesis by simp
next
  case Call_LpmEnterSleepMode
  with assms adds_LpmEnterSleepMode [of s] show ?thesis
    by (auto simp: LpmEnterSleepMode_def emits_def)
qed

lemma exec_op_uninitialized:
  assumes "\<not> McuInitialized s" and "\<not> SystemWakeupTimeCalibrated s"
    and "exec_op cfg env c s = Some s'"
  shows "if runs_BoardInitMcu c then McuInitialized s' \<and> adds s s' 1 1
         else \<not> McuInitialized s' \<and> \<not> SystemWakeupTimeCalibrated s' \<and> adds s s' 0 0"
proof (cases c)
  case Call_BoardInitMcu
  with assms BoardInitMcu_uninitialized show ?thesis by simp
next
  case Call_BoardDeInitMcu
  with assms adds_BoardDeInitMcu [of s] show ?thesis
    by (auto simp: BoardDeInitMcu_def emits_def)
next
  case Call_LpmEnterStopMode
  with assms adds_LpmEnterStopMode [of s] show ?thesis
    by (auto simp: LpmEnterStopMode_def BoardCriticalSectionBegin_def BoardCriticalSectionEnd_def
      BoardDeInitMcu_def disable_irq_def set_PRIMASK_def emits_def)
next
  case Call_LpmExitStopMode
  with assms LpmExitStopMode_step [of cfg env s s'] show ?thesis by simp
next
  case Call_LpmEnterSleepMode
  with assms adds_LpmEnterSleepMode [of s] show ?thesis
    by (auto simp: LpmEnterSleepMode_def emits_def)
qed

lemma exec_ops_initialized:
  assumes "McuInitialized s" and "exec_ops cfg env cs s = Some s'"
  shows "McuInitialized s' \<and> adds s s' 0 (length (filter runs_BoardInitMcu cs))"
  using assms
proof (induction cs arbitrary: s)
  case Nil
  then show ?case by (simp add: adds_refl)
next
  case (Cons c cs)
  from Cons.prems(2) obtain s1 where s1: "exec_op cfg env c s = Some s1"
    and rest: "exec_ops cfg env cs s1 = Some s'"
    by (auto simp: bind_eq_Some_conv)
  from exec_op_initialized [OF Cons.prems(1) s1] have
    i1: "McuInitialized s1" and a1: "adds s s1 0 (if runs_BoardInitMcu c then 1 else 0)"
    by simp_all
  from Cons.IH [OF i1 rest] have
    i2: "McuInitialized s'" and a2: "adds s1 s' 0 (length (filter runs_BoardInitMcu cs))"
    by simp_all
  from adds_trans [OF a1 a2] i2 show ?case
    by (cases "runs_BoardInitMcu c") simp_all
qed

lemma exec_ops_uninitialized:
  assumes "\<not> McuInitialized s" and "\<not> SystemWakeupTimeCalibrated s"
    and "exec_ops cfg env cs s = Some s'"
  shows "McuInitialized s' = (\<exists>c\<in>set cs. runs_BoardInitMcu c) \<and>
         adds s s' (if \<exists>c\<in>set cs. runs_BoardInitMcu c then 1 else 0)
           (length (filter runs_BoardInitMcu cs))"
  using assms
proof (induction cs arbitrary: s)
  case Nil
  then show ?case by (simp add: adds_refl)
next
  case (Cons c cs)
  from Cons.prems(3) obtain s1 where s1: "exec_op cfg env c s = Some s1"
    and rest: "exec_ops cfg env cs s1 = Some s'"
    by (auto simp: bind_eq_Some_conv)
  show ?case
  proof (cases "runs_BoardInitMcu c")
    case True
    with exec_op_uninitialized [OF Cons.prems(1,2) s1] have
      i1: "McuInitialized s1" and a1: "adds s s1 1 1"
      by simp_all
    from exec_ops_initialized [OF i1 rest] have
      i2: "McuInitialized s'" and a2: "adds s1 s' 0 (length (filter runs_BoardInitMcu cs))"
      by simp_all
    from adds_trans [OF a1 a2] i2 True show ?thesis
      by simp
  next
    case False
    with exec_op_uninitialized [OF Cons.prems(1,2) s1] have
      f1: "\<not> McuInitialized s1" "\<not> SystemWakeupTimeCalibrated s1" and a1: "adds s s1 0 0"
      by simp_all
    from Cons.IH [OF f1 rest] have
      i2: "McuInitialized s' = (\<exists>c\<in>set cs. runs_BoardInitMcu c)"
      and a2: "adds s1 s' (if \<exists>c\<in>set cs. runs_BoardInitMcu c then 1 else 0)
           (length (filter runs_BoardInitMcu cs))"
      by simp_all
    from adds_trans [OF a1 a2] i2 False show ?thesis
      by simp
  qed
qed

lemma exec_op_returns:
  assumes "McuInitialized s" and "eventually_ready env"
  shows "\<exists>s'. exec_op cfg env c s = Some s'"
proof (cases c)
  case Call_BoardInitMcu
  with BoardInitMcu_resume_returns [OF assms] show ?thesis by simp
next
  case Call_LpmExitStopMode
  from BoardInitMcu_resume_returns [OF assms] obtain s2 where
    "BoardInitMcu cfg env s = Some s2"
    by blast
  with Call_LpmExitStopMode assms(1) show ?thesis
    by (simp add: LpmExitStopMode_initialized)
qed simp_all

lemma exec_ops_returns:
  assumes "McuInitialized s" and "eventually_ready env"
  shows "\<exists>s'. exec_ops cfg env cs s = Some s'"
  using assms(1)
proof (induction cs arbitrary: s)
  case Nil
  show ?case by simp
next
  case (Cons c cs)
  from exec_op_returns [OF Cons.prems assms(2)] obtain s1 where
    s1: "exec_op cfg env c s = Some s1"
    by blast
  from exec_op_initialized [OF Cons.prems s1] have "McuInitialized s1"
    by simp
  from Cons.IH [OF this] s1 show ?case
    by simp
qed

text \<open>
  C1. In a run of calls to the sequencer that starts from the reset state and returns,
  each part of the cold-boot sequence and the calibration are executed exactly once if
  \<open>BoardInitMcu\<close> is run at all (directly or through \<open>LpmExitStopMode\<close>), however many times
  it is run; the watchdog initialisation counts the runs. From an initialised state no
  call executes any part of the cold-boot sequence again, \<open>BoardInitMcu\<close> is the resume
  path, and no call clears the lifecycle flag.
\<close>

theorem single_cold_boot:
  "(\<not> McuInitialized st \<and> \<not> SystemWakeupTimeCalibrated st \<and>
    exec_ops cfg env cs st = Some st' \<longrightarrow>
      McuInitialized st' = (\<exists>c\<in>set cs. runs_BoardInitMcu c) \<and>
      (\<forall>e\<in>set cold_boot_marks.
         count_list (new_events st st') e = (if \<exists>c\<in>set cs. runs_BoardInitMcu c then 1 else 0)) \<and>
      count_list (new_events st st') (Driver WdtInit) = length (filter runs_BoardInitMcu cs)) \<and>
   (McuInitialized st \<and> exec_ops cfg env cs st = Some st' \<longrightarrow>
      McuInitialized st' \<and>
      (\<forall>e\<in>set cold_boot_marks. count_list (new_events st st') e = 0)) \<and>
   (McuInitialized st \<longrightarrow> BoardInitMcu cfg env st = resume_path cfg env st)"
proof (intro conjI impI)
  assume a: "\<not> McuInitialized st \<and> \<not> SystemWakeupTimeCalibrated st \<and>
    exec_ops cfg env cs st = Some st'"
  then have u: "McuInitialized st' = (\<exists>c\<in>set cs. runs_BoardInitMcu c)"
    "adds st st' (if \<exists>c\<in>set cs. runs_BoardInitMcu c then 1 else 0)
       (length (filter runs_BoardInitMcu cs))"
    using exec_ops_uninitialized [of st cfg env cs st'] by simp_all
  from u(1) show "McuInitialized st' = (\<exists>c\<in>set cs. runs_BoardInitMcu c)" .
  from adds_new_events [OF u(2)]
  show "\<forall>e\<in>set cold_boot_marks.
         count_list (new_events st st') e = (if \<exists>c\<in>set cs. runs_BoardInitMcu c then 1 else 0)"
    and "count_list (new_events st st') (Driver WdtInit) = length (filter runs_BoardInitMcu cs)"
    by simp_all
next
  assume a: "McuInitialized st \<and> exec_ops cfg env cs st = Some st'"
  then have i: "McuInitialized st'" "adds st st' 0 (length (filter runs_BoardInitMcu cs))"
    using exec_ops_initialized [of st cfg env cs st'] by simp_all
  from i(1) show "McuInitialized st'" .
  from adds_new_events [OF i(2)]
  show "\<forall>e\<in>set cold_boot_marks. count_list (new_events st st') e = 0"
    by simp
next
  assume "McuInitialized st"
  then show "BoardInitMcu cfg env st = resume_path cfg env st"
    by (rule BoardInitMcu_resume)
qed

theorem single_cold_boot_witness:
  "\<not> McuInitialized power_on \<and> \<not> SystemWakeupTimeCalibrated power_on \<and>
   map_option
     (\<lambda>s. (McuInitialized s,
           count_list (new_events power_on s) (Hal HAL_Init),
           count_list (new_events power_on s) (Timer TimerStart),
           count_list (new_events power_on s) (Driver WdtInit)))
     (exec_ops release_build hw_ok
        [Call_BoardInitMcu, Call_LpmEnterStopMode, Call_LpmExitStopMode, Call_BoardInitMcu]
        power_on) = Some (True, 1, 1, 3)"
proof -
  let ?cs = "[Call_BoardInitMcu, Call_LpmEnterStopMode, Call_LpmExitStopMode, Call_BoardInitMcu]"
  have p: "\<not> McuInitialized power_on" "\<not> SystemWakeupTimeCalibrated power_on"
    by (simp_all add: power_on_def)
  obtain s1 where s1: "BoardInitMcu release_build hw_ok power_on = Some s1"
    using BoardInitMcu_power_on_returns by blast
  from BoardInitMcu_sets_flag [OF s1] have "McuInitialized s1" .
  from exec_ops_returns [OF this eventually_ready_hw_ok] obtain s' where
    "exec_ops release_build hw_ok
       [Call_LpmEnterStopMode, Call_LpmExitStopMode, Call_BoardInitMcu] s1 = Some s'"
    by blast
  with s1 have run: "exec_ops release_build hw_ok ?cs power_on = Some s'"
    by simp
  have "Hal HAL_Init \<in> set cold_boot_marks" "Timer TimerStart \<in> set cold_boot_marks"
    by (simp_all add: cold_boot_marks_def)
  with p run single_cold_boot [of power_on release_build hw_ok ?cs s'] show ?thesis
    by simp
qed

end
